(* ===== verification/Prelude.thy ===== *)
theory Prelude
  imports Complex_Main "HOL-Library.Multiset"
begin

text \<open>
  Shared vocabulary of the physio-game development: the types that name the
  values the Python code passes around (2D landmark points, joint-angle
  dictionaries), the collection of definitions unfolded when a handler is
  evaluated on a concrete input, and generic lemmas on lists of reals that
  the scorer and the server proofs share.  Python floats are modelled as
  \<open>real\<close> throughout (no rounding, no NaN), Python ints as \<open>int\<close>.
\<close>

named_theorems eval_simps "definitions unfolded to evaluate the model on a concrete input"

type_synonym point = "real \<times> real"
  \<comment> \<open>a landmark \<open>[x, y]\<close> in normalised image coordinates\<close>

type_synonym angle_set = "string \<rightharpoonup> real"
  \<comment> \<open>a Python dict from joint name to an angle in degrees\<close>

subsection \<open>Counting list elements under a threshold\<close>

text \<open>
  The scorer counts the differences that lie within a threshold.  These are
  the facts about such counts that its proofs use.
\<close>

definition count_within :: "real \<Rightarrow> real list \<Rightarrow> nat" where
  "count_within thr ds = length (filter (\<lambda>d. d \<le> thr) ds)"

lemma count_within_le_length [simp]: "count_within thr ds \<le> length ds"
  by (simp add: count_within_def)

lemma count_within_mono_thr:
  "thr \<le> thr' \<Longrightarrow> count_within thr ds \<le> count_within thr' ds"
  by (induction ds) (auto simp: count_within_def)

lemma count_within_all:
  "\<forall>d \<in> set ds. d \<le> thr \<Longrightarrow> count_within thr ds = length ds"
  by (simp add: count_within_def)

lemma count_within_mset:
  "mset ds = mset ds' \<Longrightarrow> count_within thr ds = count_within thr ds'"
  unfolding count_within_def by (metis mset_filter size_mset)

lemma count_within_pointwise:
  "list_all2 (\<le>) ds ds' \<Longrightarrow> count_within thr ds' \<le> count_within thr ds"
proof (induction ds ds' rule: list_all2_induct)
  case Nil
  then show ?case by (simp add: count_within_def)
next
  case (Cons d ds d' ds')
  then show ?case by (auto simp: count_within_def)
qed

lemma count_within_append [simp]:
  "count_within thr (xs @ ys) = count_within thr xs + count_within thr ys"
  by (simp add: count_within_def)

lemma count_within_Cons [simp]:
  "count_within thr (d # ds) = (if d \<le> thr then Suc (count_within thr ds) else count_within thr ds)"
  by (simp add: count_within_def)

lemma count_within_Nil [simp]: "count_within thr [] = 0"
  by (simp add: count_within_def)

end
