(* ===== verification/Angle.thy ===== *)
theory Angle
  imports Prelude
begin

text \<open>
  The angle calculator: \<open>calculate_angle\<close> of src/backend.py (and its copy
  in src/cv.py), the angle at vertex \<open>b\<close> of the polyline \<open>a\<close>--\<open>b\<close>--\<open>c\<close>,
  computed from two \<open>numpy.arctan2\<close> directions, converted to degrees and
  folded into [0, 180].  \<open>arctan2\<close> is numpy's two-argument arctangent on
  reals, written with HOL's \<open>arctan\<close> by the usual quadrant cases.
  The lemmas show the result range, the symmetry and the translation,
  scaling, rotation and mirror invariances, the degenerate case, and that the
  function computes the unsigned geometric angle
  \<open>arccos (u \<bullet> v / (|u| |v|))\<close> between the two segments.
\<close>

subsection \<open>Definitions\<close>

definition arctan2 :: "real \<Rightarrow> real \<Rightarrow> real" where
  "arctan2 y x =
     (if 0 < x then arctan (y / x)
      else if x < 0 then (if 0 \<le> y then arctan (y / x) + pi else arctan (y / x) - pi)
      else if 0 < y then pi / 2
      else if y < 0 then - (pi / 2)
      else 0)"

definition calculate_angle :: "point \<Rightarrow> point \<Rightarrow> point \<Rightarrow> real" where
  "calculate_angle a b c =
     (let radians = arctan2 (snd c - snd b) (fst c - fst b)
                    - arctan2 (snd a - snd b) (fst a - fst b);
          angle = \<bar>radians * 180 / pi\<bar>
      in if 180 < angle then 360 - angle else angle)"

definition cv_calculate_angle :: "point \<Rightarrow> point \<Rightarrow> point \<Rightarrow> real" where
  "cv_calculate_angle a b c =
     (let radians = arctan2 (snd c - snd b) (fst c - fst b)
                    - arctan2 (snd a - snd b) (fst a - fst b);
          angle = \<bar>radians * 180 / pi\<bar>
      in if 180 < angle then 360 - angle else angle)"

text \<open>The geometric specification: vectors, dot product, length, unsigned angle.\<close>

definition vsub :: "point \<Rightarrow> point \<Rightarrow> point" where
  "vsub p q = (fst p - fst q, snd p - snd q)"

definition vdot :: "point \<Rightarrow> point \<Rightarrow> real" where
  "vdot u v = fst u * fst v + snd u * snd v"

definition vlen :: "point \<Rightarrow> real" where
  "vlen u = sqrt ((fst u)\<^sup>2 + (snd u)\<^sup>2)"

definition unsigned_angle :: "point \<Rightarrow> point \<Rightarrow> real" where
  "unsigned_angle u v = arccos (vdot u v / (vlen u * vlen v)) * 180 / pi"

definition shift :: "point \<Rightarrow> point \<Rightarrow> point" where
  "shift d p = (fst p + fst d, snd p + snd d)"

definition scale_about :: "real \<Rightarrow> point \<Rightarrow> point \<Rightarrow> point" where
  "scale_about k b p = (fst b + k * (fst p - fst b), snd b + k * (snd p - snd b))"

definition rotate_about :: "real \<Rightarrow> point \<Rightarrow> point \<Rightarrow> point" where
  "rotate_about t b p =
     (fst b + cos t * (fst p - fst b) - sin t * (snd p - snd b),
      snd b + sin t * (fst p - fst b) + cos t * (snd p - snd b))"

text \<open>
  The effect of \<open>cv2.flip(frame, 1)\<close> (src/backend.py, before detection) on a
  landmark in normalised image coordinates: \<open>x\<close> becomes \<open>1 - x\<close>.
\<close>

definition mirror_x :: "point \<Rightarrow> point" where
  "mirror_x p = (1 - fst p, snd p)"

declare arctan2_def [eval_simps] calculate_angle_def [eval_simps]

subsection \<open>numpy.arctan2\<close>

lemma arctan2_range: "- pi < arctan2 y x \<and> arctan2 y x \<le> pi"
proof -
  have b: "- (pi / 2) < arctan (y / x)" "arctan (y / x) < pi / 2"
    by (rule arctan_lbound, rule arctan_ubound)
  have n: "x < 0 \<Longrightarrow> 0 \<le> y \<Longrightarrow> arctan (y / x) \<le> 0"
    by (simp add: divide_nonneg_neg)
  have p: "x < 0 \<Longrightarrow> y < 0 \<Longrightarrow> 0 < arctan (y / x)"
    by (simp add: divide_neg_neg)
  show ?thesis
    using b n p pi_gt_zero by (auto simp: arctan2_def)
qed

lemma arctan2_scale: "0 < k \<Longrightarrow> arctan2 (k * y) (k * x) = arctan2 y x"
  by (simp add: arctan2_def zero_less_mult_iff mult_less_0_iff zero_le_mult_iff)

lemma arctan2_eq_0_iff: "arctan2 y x = 0 \<longleftrightarrow> y = 0 \<and> 0 \<le> x"
proof -
  have b: "- (pi / 2) < arctan (y / x)" "arctan (y / x) < pi / 2"
    by (rule arctan_lbound, rule arctan_ubound)
  show ?thesis
  proof (cases "0 < x")
    case True
    then show ?thesis by (simp add: arctan2_def arctan_eq_zero_iff)
  next
    case False
    then show ?thesis using b pi_gt_zero by (auto simp: arctan2_def)
  qed
qed

lemma sqrt_one_plus_sq_div:
  assumes "x \<noteq> 0"
  shows "sqrt (1 + (y / x)\<^sup>2) = sqrt (x\<^sup>2 + y\<^sup>2) / \<bar>x\<bar>"
proof -
  from assms have "1 + (y / x)\<^sup>2 = (x\<^sup>2 + y\<^sup>2) / x\<^sup>2"
    by (simp add: field_simps power2_eq_square)
  then show ?thesis by (simp add: real_sqrt_divide)
qed

lemma cos_sin_arctan_div:
  assumes "x \<noteq> 0"
  shows "cos (arctan (y / x)) = \<bar>x\<bar> / sqrt (x\<^sup>2 + y\<^sup>2) \<and>
         sin (arctan (y / x)) = sgn x * y / sqrt (x\<^sup>2 + y\<^sup>2)"
proof -
  have r: "sqrt (1 + (y / x)\<^sup>2) = sqrt (x\<^sup>2 + y\<^sup>2) / \<bar>x\<bar>"
    using assms by (rule sqrt_one_plus_sq_div)
  have pos: "0 < sqrt (x\<^sup>2 + y\<^sup>2)"
    using assms by (simp add: sum_power2_gt_zero_iff)
  have "cos (arctan (y / x)) = 1 / (sqrt (x\<^sup>2 + y\<^sup>2) / \<bar>x\<bar>)"
    by (simp only: cos_arctan r)
  moreover have "sin (arctan (y / x)) = (y / x) / (sqrt (x\<^sup>2 + y\<^sup>2) / \<bar>x\<bar>)"
    by (simp only: sin_arctan r)
  ultimately show ?thesis
    using assms pos by (cases "0 < x") (simp_all add: field_simps)
qed

text \<open>\<open>arctan2 y x\<close> is the polar angle of a non-zero vector \<open>(x, y)\<close>.\<close>

lemma arctan2_polar:
  assumes "(x, y) \<noteq> (0, 0)"
  shows "cos (arctan2 y x) = x / sqrt (x\<^sup>2 + y\<^sup>2) \<and> sin (arctan2 y x) = y / sqrt (x\<^sup>2 + y\<^sup>2)"
proof (cases "x = 0")
  case True
  with assms have "y \<noteq> 0" by simp
  with True show ?thesis by (auto simp: arctan2_def)
next
  case False
  then show ?thesis
    using cos_sin_arctan_div [OF False, of y] by (auto simp: arctan2_def)
qed

lemma cos_arctan2_diff:
  assumes "(x1, y1) \<noteq> (0, 0)" "(x2, y2) \<noteq> (0, 0)"
  shows "cos (arctan2 y2 x2 - arctan2 y1 x1) =
           (x1 * x2 + y1 * y2) / (sqrt (x1\<^sup>2 + y1\<^sup>2) * sqrt (x2\<^sup>2 + y2\<^sup>2))"
  using arctan2_polar [OF assms(1)] arctan2_polar [OF assms(2)]
  by (simp add: cos_diff add_divide_distrib mult.commute)

subsection \<open>The fold into [0, 180]\<close>

text \<open>
  The difference of two directions lies in (-2\<pi>, 2\<pi>); the code's fold
  \<open>if angle > 180: angle = 360 - angle\<close> maps its absolute value in degrees
  to the principal angle, which is what \<open>arccos \<circ> cos\<close> computes.
\<close>

lemma arctan2_diff_bound:
  "\<bar>arctan2 y2 x2 - arctan2 y1 x1\<bar> < 2 * pi"
  using arctan2_range [of y2 x2] arctan2_range [of y1 x1] by (simp add: abs_less_iff)

lemma fold_degrees_range:
  assumes "\<bar>d\<bar> < 2 * pi"
  shows "0 \<le> (if 180 < \<bar>d * 180 / pi\<bar> then 360 - \<bar>d * 180 / pi\<bar> else \<bar>d * 180 / pi\<bar>) \<and>
         (if 180 < \<bar>d * 180 / pi\<bar> then 360 - \<bar>d * 180 / pi\<bar> else \<bar>d * 180 / pi\<bar>) \<le> 180"
proof -
  from assms have "\<bar>d * 180 / pi\<bar> < 360" by (simp add: abs_mult field_simps)
  then show ?thesis by simp
qed

lemma arccos_cos_fold:
  assumes "\<bar>d\<bar> < 2 * pi"
  shows "arccos (cos d) * 180 / pi =
           (if 180 < \<bar>d * 180 / pi\<bar> then 360 - \<bar>d * 180 / pi\<bar> else \<bar>d * 180 / pi\<bar>)"
proof (cases "pi < \<bar>d\<bar>")
  case True
  have "cos d = cos (2 * pi - \<bar>d\<bar>)" by simp
  moreover have "arccos (cos (2 * pi - \<bar>d\<bar>)) = 2 * pi - \<bar>d\<bar>"
    using True assms by (intro arccos_cos) auto
  moreover have "180 < \<bar>d * 180 / pi\<bar>" using True by (simp add: abs_mult field_simps)
  ultimately show ?thesis by (simp add: abs_mult field_simps)
next
  case False
  have "arccos (cos \<bar>d\<bar>) = \<bar>d\<bar>" using False by (intro arccos_cos) auto
  moreover have "\<not> 180 < \<bar>d * 180 / pi\<bar>" using False by (simp add: abs_mult field_simps)
  ultimately show ?thesis by (simp add: abs_mult field_simps)
qed

subsection \<open>Properties of calculate_angle\<close>

lemma calculate_angle_bounds [simp]:
  "0 \<le> calculate_angle a b c" "calculate_angle a b c \<le> 180"
proof -
  have "0 \<le> calculate_angle a b c \<and> calculate_angle a b c \<le> 180"
    unfolding calculate_angle_def Let_def by (rule fold_degrees_range [OF arctan2_diff_bound])
  then show "0 \<le> calculate_angle a b c" "calculate_angle a b c \<le> 180" by simp_all
qed

text \<open>C11: the angle always lies in [0, 180].\<close>

theorem calculate_angle_range: "0 \<le> calculate_angle a b c \<and> calculate_angle a b c \<le> 180"
  by simp

text \<open>C13: swapping the two end points does not change the angle (symmetry about the vertex).\<close>

theorem calculate_angle_sym: "calculate_angle a b c = calculate_angle c b a"
proof -
  have h: "\<And>x y :: real. \<bar>(x - y) * 180 / pi\<bar> = \<bar>(y - x) * 180 / pi\<bar>"
    by (metis abs_minus_commute abs_divide abs_mult)
  show ?thesis
    unfolding calculate_angle_def Let_def by (simp only: h)
qed

text \<open>C14: moving all three points by the same offset does not change the angle.\<close>

theorem calculate_angle_translate:
  "calculate_angle (shift d a) (shift d b) (shift d c) = calculate_angle a b c"
  by (simp add: calculate_angle_def shift_def)

text \<open>C15: scaling the figure about its vertex by a positive factor does not change the angle.\<close>

theorem calculate_angle_scale:
  "0 < k \<Longrightarrow> calculate_angle (scale_about k b a) b (scale_about k b c) = calculate_angle a b c"
  by (simp add: calculate_angle_def scale_about_def arctan2_scale)

theorem calculate_angle_scale_witness:
  "calculate_angle (scale_about 2 (0, 0) (1, 0)) (0, 0) (scale_about 2 (0, 0) (0, 1)) =
   calculate_angle (1, 0) (0, 0) (0, 1)"
  using calculate_angle_scale [of 2 "(0, 0)" "(1, 0)" "(0, 1)"] by simp

lemma calculate_angle_arccos:
  assumes "a \<noteq> b" and "c \<noteq> b"
  shows "calculate_angle a b c = unsigned_angle (vsub a b) (vsub c b)"
proof -
  let ?d = "arctan2 (snd c - snd b) (fst c - fst b) - arctan2 (snd a - snd b) (fst a - fst b)"
  have na: "(fst a - fst b, snd a - snd b) \<noteq> (0, 0)"
    using assms(1) by (auto simp: prod_eq_iff)
  have nc: "(fst c - fst b, snd c - snd b) \<noteq> (0, 0)"
    using assms(2) by (auto simp: prod_eq_iff)
  have "cos ?d = vdot (vsub a b) (vsub c b) / (vlen (vsub a b) * vlen (vsub c b))"
    using cos_arctan2_diff [OF na nc] by (simp add: vdot_def vlen_def vsub_def)
  then have "unsigned_angle (vsub a b) (vsub c b) = arccos (cos ?d) * 180 / pi"
    by (simp add: unsigned_angle_def)
  also have "\<dots> = calculate_angle a b c"
    unfolding calculate_angle_def Let_def
    by (rule arccos_cos_fold [OF arctan2_diff_bound])
  finally show ?thesis ..
qed

text \<open>
  C12: for two non-degenerate segments the code computes the unsigned geometric
  angle between them, \<open>arccos (u \<bullet> v / (|u| |v|))\<close> in degrees.
\<close>

theorem calculate_angle_refines_unsigned_angle:
  assumes "a \<noteq> b" and "c \<noteq> b"
  shows "calculate_angle a b c = unsigned_angle (vsub a b) (vsub c b)"
  using assms by (rule calculate_angle_arccos)

theorem calculate_angle_refines_unsigned_angle_witness:
  "calculate_angle (1, 0) (0, 0) (0, 1) = unsigned_angle (vsub (1, 0) (0, 0)) (vsub (0, 1) (0, 0)) \<and>
   calculate_angle (1, 0) (0, 0) (0, 1) = 90"
proof -
  have "calculate_angle (1, 0) (0, 0) (0, 1) = unsigned_angle (vsub (1, 0) (0, 0)) (vsub (0, 1) (0, 0))"
    by (rule calculate_angle_refines_unsigned_angle) simp_all
  moreover have "unsigned_angle (vsub (1, 0) (0, 0)) (vsub (0, 1) (0, 0)) = 90"
    by (simp add: unsigned_angle_def vsub_def vdot_def vlen_def arccos_0)
  ultimately show ?thesis by simp
qed

subsection \<open>Rotation\<close>

lemma vsub_rotate_about:
  "vsub (rotate_about t b p) b = (cos t * fst (vsub p b) - sin t * snd (vsub p b),
                                   sin t * fst (vsub p b) + cos t * snd (vsub p b))"
  by (simp add: rotate_about_def vsub_def)

lemma vdot_rotate:
  "vdot (cos t * fst u - sin t * snd u, sin t * fst u + cos t * snd u)
        (cos t * fst v - sin t * snd v, sin t * fst v + cos t * snd v) = vdot u v"
proof -
  have "(cos t * fst u - sin t * snd u) * (cos t * fst v - sin t * snd v) +
        (sin t * fst u + cos t * snd u) * (sin t * fst v + cos t * snd v) =
        fst u * fst v + snd u * snd v"
    using sin_cos_squared_add3 [of t] by algebra
  then show ?thesis by (simp add: vdot_def)
qed

lemma vlen_rotate:
  "vlen (cos t * fst u - sin t * snd u, sin t * fst u + cos t * snd u) = vlen u"
proof -
  have "(cos t * fst u - sin t * snd u)\<^sup>2 + (sin t * fst u + cos t * snd u)\<^sup>2 =
        (fst u)\<^sup>2 + (snd u)\<^sup>2"
    using sin_cos_squared_add3 [of t] by algebra
  then show ?thesis by (simp add: vlen_def)
qed

lemma rotate_about_ne:
  assumes "p \<noteq> b" shows "rotate_about t b p \<noteq> b"
proof
  assume eq: "rotate_about t b p = b"
  have "vlen (vsub p b) = vlen (vsub (rotate_about t b p) b)"
    by (simp only: vsub_rotate_about vlen_rotate)
  also have "\<dots> = 0" using eq by (simp add: vlen_def vsub_def)
  finally have "(fst p - fst b)\<^sup>2 + (snd p - snd b)\<^sup>2 = 0" by (simp add: vlen_def vsub_def)
  then have "p = b" by (simp add: sum_power2_eq_zero_iff prod_eq_iff)
  with assms show False ..
qed

text \<open>C37: rotating the two end points about the vertex by any angle does not change a non-degenerate angle.\<close>

theorem calculate_angle_rotate:
  assumes "a \<noteq> b" and "c \<noteq> b"
  shows "calculate_angle (rotate_about t b a) b (rotate_about t b c) = calculate_angle a b c"
proof -
  have "calculate_angle (rotate_about t b a) b (rotate_about t b c) =
        unsigned_angle (vsub (rotate_about t b a) b) (vsub (rotate_about t b c) b)"
    by (rule calculate_angle_arccos) (simp_all add: rotate_about_ne assms)
  also have "\<dots> = unsigned_angle (vsub a b) (vsub c b)"
    by (simp only: unsigned_angle_def vsub_rotate_about vdot_rotate vlen_rotate)
  also have "\<dots> = calculate_angle a b c"
    by (rule calculate_angle_arccos [symmetric]) (rule assms)+
  finally show ?thesis .
qed

theorem calculate_angle_rotate_witness:
  "calculate_angle (rotate_about (pi / 2) (0, 0) (1, 0)) (0, 0) (rotate_about (pi / 2) (0, 0) (0, 1)) =
   calculate_angle (1, 0) (0, 0) (0, 1)"
  by (rule calculate_angle_rotate) simp_all

lemma calculate_angle_degenerate:
  "calculate_angle a b b = \<bar>arctan2 (snd a - snd b) (fst a - fst b)\<bar> * 180 / pi"
proof -
  have "\<bar>arctan2 (snd a - snd b) (fst a - fst b)\<bar> * 180 / pi \<le> 180"
    using arctan2_range [of "snd a - snd b" "fst a - fst b"] by (simp add: field_simps abs_le_iff)
  then show ?thesis by (simp add: calculate_angle_def arctan2_def abs_mult abs_divide)
qed

text \<open>
  C34: a degenerate figure is not graded 0 as the specification says: with the
  end point \<open>c\<close> on the vertex, \<open>arctan2 0 0 = 0\<close> and the result is the
  direction of \<open>a - b\<close> alone, which is 0 only when \<open>a\<close> lies on the
  horizontal ray to the right of the vertex.
\<close>

theorem calculate_angle_degenerate_zero_iff:
  "calculate_angle a b b = 0 \<longleftrightarrow> snd a = snd b \<and> fst b \<le> fst a"
  by (simp add: calculate_angle_degenerate arctan2_eq_0_iff)

theorem calculate_angle_degenerate_zero_iff_witness:
  "calculate_angle (2, 0) (0, 0) (0, 0) = 0 \<and> calculate_angle (-1, 0) (0, 0) (0, 0) \<noteq> 0"
  using calculate_angle_degenerate_zero_iff [of "(2, 0)" "(0, 0)"]
        calculate_angle_degenerate_zero_iff [of "(-1, 0)" "(0, 0)"] by simp
subsection \<open>Mirroring\<close>

lemma vsub_mirror_x: "vsub (mirror_x p) (mirror_x b) = (- fst (vsub p b), snd (vsub p b))"
  by (simp add: mirror_x_def vsub_def)

lemma mirror_x_ne: "p \<noteq> b \<Longrightarrow> mirror_x p \<noteq> mirror_x b"
  by (auto simp: mirror_x_def prod_eq_iff)

text \<open>
  C26: flipping the frame horizontally, as the live path does before
  detection, does not change a non-degenerate angle.
\<close>

theorem calculate_angle_mirror:
  assumes "a \<noteq> b" and "c \<noteq> b"
  shows "calculate_angle (mirror_x a) (mirror_x b) (mirror_x c) = calculate_angle a b c"
proof -
  have "calculate_angle (mirror_x a) (mirror_x b) (mirror_x c) =
        unsigned_angle (vsub (mirror_x a) (mirror_x b)) (vsub (mirror_x c) (mirror_x b))"
    by (rule calculate_angle_arccos) (simp_all add: mirror_x_ne assms)
  also have "\<dots> = unsigned_angle (vsub a b) (vsub c b)"
    by (simp add: unsigned_angle_def vsub_mirror_x vdot_def vlen_def)
  also have "\<dots> = calculate_angle a b c"
    by (rule calculate_angle_arccos [symmetric]) (rule assms)+
  finally show ?thesis .
qed

theorem calculate_angle_mirror_witness:
  "calculate_angle (mirror_x (1, 0)) (mirror_x (0, 0)) (mirror_x (0, 1)) = calculate_angle (1, 0) (0, 0) (0, 1)"
  by (rule calculate_angle_mirror) simp_all

text \<open>The copy of \<open>calculate_angle\<close> in src/cv.py computes the same function.\<close>

lemma cv_calculate_angle_eq: "cv_calculate_angle = calculate_angle"
  by (intro ext) (simp add: cv_calculate_angle_def calculate_angle_def)

end
