(* ===== verification/Scorer.thy ===== *)
theory Scorer
  imports Prelude
begin

text \<open>
  The pose scorer of src/backend.py: the reference-pose table
  \<open>POSE_TARGETS\<close> (a dict from pose id to an insertion-ordered dict of
  eight target joint angles, here a \<open>map_of\<close> of association lists), the
  loop that collects the absolute differences of the joints present in both
  the current angle set and the target (\<open>collect_differences\<close>, with the
  list it appends to as accumulator), and \<open>calculate_pose_score\<close> with its
  early returns, thresholds and 75 percent coverage rule.  The abstract
  specification \<open>pose_score_spec\<close> states the rule on the multiset of
  differences with integer arithmetic (\<open>4 c \<ge> 3 n\<close>); the lemmas show the
  code refines it, the grade range, the fail-closed branches, the grade of
  an exact match, monotonicity in the differences, and that only the target's
  joints matter.
\<close>

subsection \<open>Definitions\<close>

definition downward_dog :: "(string \<times> real) list" where
  "downward_dog =
     [(''left_shoulder'', 104.5), (''left_elbow'', 112.4),
      (''right_shoulder'', 117.8), (''right_elbow'', 162.7),
      (''left_hip'', 102.3), (''left_knee'', 164.1),
      (''right_hip'', 29.3), (''right_knee'', 163.6)]"

definition tree_pose :: "(string \<times> real) list" where
  "tree_pose =
     [(''left_shoulder'', 99.5), (''left_elbow'', 171.9),
      (''right_shoulder'', 87.9), (''right_elbow'', 179.4),
      (''left_hip'', 167.1), (''left_knee'', 167.7),
      (''right_hip'', 114.2), (''right_knee'', 57.3)]"

definition warrior_1 :: "(string \<times> real) list" where
  "warrior_1 =
     [(''left_shoulder'', 140.1), (''left_elbow'', 169.6),
      (''right_shoulder'', 151.3), (''right_elbow'', 178.7),
      (''left_hip'', 146.7), (''left_knee'', 115.2),
      (''right_hip'', 107.0), (''right_knee'', 52.9)]"

definition warrior_2 :: "(string \<times> real) list" where
  "warrior_2 =
     [(''left_shoulder'', 71.4), (''left_elbow'', 177.3),
      (''right_shoulder'', 104.4), (''right_elbow'', 176.5),
      (''left_hip'', 148.8), (''left_knee'', 166.5),
      (''right_hip'', 125.5), (''right_knee'', 138.4)]"

definition POSE_TARGETS :: "int \<rightharpoonup> (string \<times> real) list" where
  "POSE_TARGETS = map_of [(0, downward_dog), (1, tree_pose), (2, warrior_1), (3, warrior_2)]"

lemmas pose_table_defs = POSE_TARGETS_def downward_dog_def tree_pose_def warrior_1_def warrior_2_def

fun collect_differences :: "angle_set \<Rightarrow> (string \<times> real) list \<Rightarrow> real list \<Rightarrow> real list" where
  "collect_differences current_angles [] differences = differences"
| "collect_differences current_angles ((joint, target_angle) # ts) differences =
     collect_differences current_angles ts
       (case current_angles joint of
          None \<Rightarrow> differences
        | Some a \<Rightarrow> differences @ [\<bar>a - target_angle\<bar>])"

definition calculate_pose_score :: "angle_set \<Rightarrow> int \<Rightarrow> int" where
  "calculate_pose_score current_angles target_pose_val =
     (case POSE_TARGETS target_pose_val of
        None \<Rightarrow> 1
      | Some target_angles \<Rightarrow>
          (let PERFECT_THRESHOLD = 35 :: real;
               GREAT_THRESHOLD = 45 :: real;
               OKAY_THRESHOLD = 65 :: real;
               differences = collect_differences current_angles target_angles []
           in if differences = [] then 1
              else
                (let avg_difference = sum_list differences / real (length differences);
                     angles_within_perfect = count_within PERFECT_THRESHOLD differences;
                     angles_within_great = count_within GREAT_THRESHOLD differences;
                     angles_within_okay = count_within OKAY_THRESHOLD differences;
                     total_angles = length differences
                 in if real total_angles * 0.75 \<le> real angles_within_perfect then 4
                    else if real total_angles * 0.75 \<le> real angles_within_great then 3
                    else if real total_angles * 0.75 \<le> real angles_within_okay then 2
                    else 1)))"


declare pose_table_defs [eval_simps] calculate_pose_score_def [eval_simps]

text \<open>The comparison population as a multiset, and the coverage rule on it.\<close>

definition joint_differences :: "angle_set \<Rightarrow> (string \<times> real) list \<Rightarrow> real list" where
  "joint_differences cur ts = List.map_filter (\<lambda>(j, t). map_option (\<lambda>a. \<bar>a - t\<bar>) (cur j)) ts"

definition comparison_population :: "angle_set \<Rightarrow> (string \<times> real) list \<Rightarrow> real multiset" where
  "comparison_population cur ts = mset (joint_differences cur ts)"

definition coverage_grade :: "real multiset \<Rightarrow> int" where
  "coverage_grade D =
     (if D = {#} then 1
      else if 3 * size D \<le> 4 * size (filter_mset (\<lambda>d. d \<le> 35) D) then 4
      else if 3 * size D \<le> 4 * size (filter_mset (\<lambda>d. d \<le> 45) D) then 3
      else if 3 * size D \<le> 4 * size (filter_mset (\<lambda>d. d \<le> 65) D) then 2
      else 1)"

definition pose_score_spec :: "angle_set \<Rightarrow> int \<Rightarrow> int" where
  "pose_score_spec cur p =
     (case POSE_TARGETS p of None \<Rightarrow> 1 | Some ts \<Rightarrow> coverage_grade (comparison_population cur ts))"

subsection \<open>The loop and the classification\<close>

lemma collect_differences_eq:
  "collect_differences cur ts acc = acc @ joint_differences cur ts"
  by (induction cur ts acc rule: collect_differences.induct)
     (simp_all add: joint_differences_def List.map_filter_simps split: option.splits)

lemma joint_differences_Cons [simp]:
  "joint_differences cur ((j, t) # ts) =
     (case cur j of None \<Rightarrow> joint_differences cur ts | Some a \<Rightarrow> \<bar>a - t\<bar> # joint_differences cur ts)"
  by (simp add: joint_differences_def List.map_filter_simps split: option.splits)

lemma joint_differences_Nil [simp]: "joint_differences cur [] = []"
  by (simp add: joint_differences_def List.map_filter_simps)

lemma three_quarters_iff: "real n * 0.75 \<le> real c \<longleftrightarrow> 3 * n \<le> 4 * c"
proof -
  have "real n * 0.75 \<le> real c \<longleftrightarrow> real (3 * n) \<le> real (4 * c)" by simp linarith
  then show ?thesis by (simp only: of_nat_le_iff)
qed

lemma size_filter_mset_count_within:
  "size (filter_mset (\<lambda>d. d \<le> thr) (mset ds)) = count_within thr ds"
  by (simp add: count_within_def flip: mset_filter)

text \<open>The code's classification of a list of differences, as the coverage rule on integers.\<close>

lemma calculate_pose_score_Some:
  assumes "POSE_TARGETS p = Some ts"
  shows "calculate_pose_score cur p =
    (let ds = joint_differences cur ts in
     if ds = [] then 1
     else if 3 * length ds \<le> 4 * count_within 35 ds then 4
     else if 3 * length ds \<le> 4 * count_within 45 ds then 3
     else if 3 * length ds \<le> 4 * count_within 65 ds then 2
     else 1)"
  using assms by (simp add: calculate_pose_score_def collect_differences_eq three_quarters_iff Let_def)

lemma calculate_pose_score_None:
  "POSE_TARGETS p = None \<Longrightarrow> calculate_pose_score cur p = 1"
  by (simp add: calculate_pose_score_def)

lemma POSE_TARGETS_None_iff: "POSE_TARGETS p = None \<longleftrightarrow> p \<notin> {0..3}"
proof -
  have "p \<in> {0..3} \<longleftrightarrow> p = 0 \<or> p = 1 \<or> p = 2 \<or> p = 3" by auto
  then show ?thesis by (auto simp: POSE_TARGETS_def)
qed

subsection \<open>Properties of calculate_pose_score\<close>

lemma calculate_pose_score_coverage:
  "POSE_TARGETS p = Some ts \<Longrightarrow>
   calculate_pose_score cur p = coverage_grade (comparison_population cur ts)"
  by (simp add: calculate_pose_score_Some coverage_grade_def comparison_population_def
      size_filter_mset_count_within Let_def)

lemma calculate_pose_score_bounds [simp]:
  "1 \<le> calculate_pose_score cur p" "calculate_pose_score cur p \<le> 4"
  by (simp_all add: calculate_pose_score_def Let_def split: option.splits)

text \<open>C1: the code implements the coverage rule of the specification.\<close>

theorem calculate_pose_score_refines_spec:
  "calculate_pose_score cur p = pose_score_spec cur p"
proof (cases "POSE_TARGETS p")
  case None
  then show ?thesis by (simp add: calculate_pose_score_None pose_score_spec_def)
next
  case (Some ts)
  then show ?thesis by (simp add: calculate_pose_score_coverage pose_score_spec_def)
qed

text \<open>C2: the grade is always one of 1, 2, 3, 4.\<close>

theorem calculate_pose_score_range:
  "1 \<le> calculate_pose_score cur p \<and> calculate_pose_score cur p \<le> 4"
  by simp

text \<open>C3: a target pose id outside the table (0--3) fails closed to grade 1 (Poor), for every current angle set, the empty one included.\<close>

theorem calculate_pose_score_unknown_pose:
  "p \<notin> {0..3} \<Longrightarrow> calculate_pose_score cur p = 1"
  using POSE_TARGETS_None_iff [of p] calculate_pose_score_None by blast

theorem calculate_pose_score_unknown_pose_witness:
  "(7::int) \<notin> {0..3} \<and> calculate_pose_score Map.empty 7 = 1"
  using calculate_pose_score_unknown_pose [of 7 Map.empty] by simp

text \<open>C4: a current angle set that shares no joint name with the target pose fails closed to grade 1.\<close>

theorem calculate_pose_score_no_overlap:
  assumes "POSE_TARGETS p = Some ts" and "dom cur \<inter> fst ` set ts = {}"
  shows "calculate_pose_score cur p = 1"
proof -
  have "joint_differences cur ts = []"
    using assms(2) by (induction ts) (auto split: option.splits)
  then show ?thesis using assms(1) by (simp add: calculate_pose_score_Some)
qed

theorem calculate_pose_score_no_overlap_witness:
  "POSE_TARGETS 1 = Some tree_pose \<and> calculate_pose_score [''nose'' \<mapsto> 12] 1 = 1"
proof -
  have t: "POSE_TARGETS 1 = Some tree_pose" by (simp add: POSE_TARGETS_def)
  have "dom [''nose'' \<mapsto> (12::real)] \<inter> fst ` set tree_pose = {}" by (simp add: tree_pose_def)
  with t show ?thesis using calculate_pose_score_no_overlap [OF t] by simp
qed

lemma POSE_TARGETS_distinct:
  "POSE_TARGETS p = Some ts \<Longrightarrow> distinct (map fst ts) \<and> length ts = 8"
  by (auto simp: pose_table_defs split: if_splits)

lemma joint_differences_upd_other:
  "j \<notin> fst ` set ts \<Longrightarrow> joint_differences (m(j \<mapsto> v)) ts = joint_differences m ts"
  by (induction ts) (auto split: option.splits)

lemma joint_differences_map_of:
  "distinct (map fst ts) \<Longrightarrow> joint_differences (map_of ts) ts = replicate (length ts) 0"
proof (induction ts)
  case Nil
  then show ?case by simp
next
  case (Cons jt ts)
  obtain j t where jt: "jt = (j, t)" by fastforce
  with Cons.prems have "j \<notin> fst ` set ts" by auto
  then have "joint_differences ((map_of ts)(j \<mapsto> t)) ts = joint_differences (map_of ts) ts"
    by (rule joint_differences_upd_other)
  moreover have "joint_differences (map_of ((j, t) # ts)) ((j, t) # ts) =
                   0 # joint_differences ((map_of ts)(j \<mapsto> t)) ts"
    by simp
  ultimately show ?case using Cons jt by (simp add: fun_upd_def)
qed

text \<open>C5: a current angle set equal to the target pose is graded 4 (Perfect).\<close>

theorem calculate_pose_score_identical:
  "POSE_TARGETS p = Some ts \<Longrightarrow> calculate_pose_score (map_of ts) p = 4"
  using POSE_TARGETS_distinct [of p ts]
  by (simp add: calculate_pose_score_Some joint_differences_map_of count_within_all)

theorem calculate_pose_score_identical_witness:
  "POSE_TARGETS 1 = Some tree_pose \<and> calculate_pose_score (map_of tree_pose) 1 = 4"
proof -
  have t: "POSE_TARGETS 1 = Some tree_pose" by (simp add: POSE_TARGETS_def)
  with calculate_pose_score_identical [OF t] show ?thesis by simp
qed

lemma joint_differences_pointwise:
  assumes "dom cur' = dom cur"
    and "\<forall>(j, t) \<in> set ts. \<forall>a a'. cur j = Some a \<longrightarrow> cur' j = Some a' \<longrightarrow> \<bar>a - t\<bar> \<le> \<bar>a' - t\<bar>"
  shows "list_all2 (\<le>) (joint_differences cur ts) (joint_differences cur' ts)"
  using assms(2)
proof (induction ts)
  case Nil
  then show ?case by simp
next
  case (Cons jt ts)
  obtain j t where jt: "jt = (j, t)" by fastforce
  have "cur j = None \<longleftrightarrow> cur' j = None" using assms(1) by blast
  with Cons jt show ?case by (auto split: option.splits)
qed

lemma length_joint_differences:
  "fst ` set ts \<subseteq> dom cur \<Longrightarrow> length (joint_differences cur ts) = length ts"
  by (induction ts) (auto split: option.splits)

lemma joint_differences_cong:
  "\<forall>j \<in> fst ` set ts. cur j = cur' j \<Longrightarrow> joint_differences cur ts = joint_differences cur' ts"
  by (induction ts) (auto split: option.splits)

text \<open>C6: monotonicity: making every joint difference at least as large, with the same joints present, never raises the grade.\<close>

theorem calculate_pose_score_antimono:
  assumes "POSE_TARGETS p = Some ts" and "dom cur' = dom cur"
    and "\<forall>(j, t) \<in> set ts. \<forall>a a'. cur j = Some a \<longrightarrow> cur' j = Some a' \<longrightarrow> \<bar>a - t\<bar> \<le> \<bar>a' - t\<bar>"
  shows "calculate_pose_score cur' p \<le> calculate_pose_score cur p"
proof -
  let ?ds = "joint_differences cur ts" and ?ds' = "joint_differences cur' ts"
  have l: "list_all2 (\<le>) ?ds ?ds'"
    using assms(2,3) by (rule joint_differences_pointwise)
  then have len: "length ?ds' = length ?ds" by (simp add: list_all2_lengthD)
  have c: "\<And>thr. count_within thr ?ds' \<le> count_within thr ?ds"
    using l by (rule count_within_pointwise)
  show ?thesis
    using assms(1) len c [of 35] c [of 45] c [of 65]
    by (auto simp: calculate_pose_score_Some Let_def)
qed

theorem calculate_pose_score_antimono_witness:
  "calculate_pose_score ((map_of tree_pose)(''right_hip'' \<mapsto> 154.2, ''right_knee'' \<mapsto> 97.3, ''left_knee'' \<mapsto> 127.7)) 1
     \<le> calculate_pose_score (map_of tree_pose) 1"
proof -
  have t: "POSE_TARGETS 1 = Some tree_pose" by (simp add: POSE_TARGETS_def)
  have d: "dom ((map_of tree_pose)(''right_hip'' \<mapsto> 154.2, ''right_knee'' \<mapsto> 97.3, ''left_knee'' \<mapsto> 127.7))
             = dom (map_of tree_pose)"
    by (auto simp: tree_pose_def)
  have m: "\<forall>(j, t) \<in> set tree_pose. \<forall>a a'. map_of tree_pose j = Some a \<longrightarrow>
             ((map_of tree_pose)(''right_hip'' \<mapsto> 154.2, ''right_knee'' \<mapsto> 97.3, ''left_knee'' \<mapsto> 127.7)) j = Some a'
             \<longrightarrow> \<bar>a - t\<bar> \<le> \<bar>a' - t\<bar>"
    by (simp add: tree_pose_def)
  show ?thesis by (rule calculate_pose_score_antimono [OF t d m])
qed

text \<open>C9: joints absent from the target pose are ignored: two angle sets that agree on the target's joints get the same grade.\<close>

theorem calculate_pose_score_target_joints_only:
  assumes "POSE_TARGETS p = Some ts" and "\<forall>j \<in> fst ` set ts. cur j = cur' j"
  shows "calculate_pose_score cur p = calculate_pose_score cur' p"
  using assms by (simp add: calculate_pose_score_Some joint_differences_cong [OF assms(2)])

theorem calculate_pose_score_target_joints_only_witness:
  "calculate_pose_score ((map_of tree_pose)(''nose'' \<mapsto> 5)) 1 = calculate_pose_score (map_of tree_pose) 1"
proof -
  have t: "POSE_TARGETS 1 = Some tree_pose" by (simp add: POSE_TARGETS_def)
  have "\<forall>j \<in> fst ` set tree_pose. ((map_of tree_pose)(''nose'' \<mapsto> 5)) j = map_of tree_pose j"
    by (simp add: tree_pose_def)
  from calculate_pose_score_target_joints_only [OF t this] show ?thesis .
qed

end
