(* ===== verification/Skeleton.thy ===== *)
theory Skeleton
  imports Angle Scorer
begin

text \<open>
  Joint-angle extraction.  A detected skeleton is MediaPipe's landmark list,
  read at the twelve \<open>PoseLandmark\<close> indices the code uses (a function from
  \<open>landmark\<close> to the \<open>[x, y]\<close> point of that landmark).  Two code paths turn it
  into the eight named joint angles:
  \<^item> \<open>live_angles\<close>, the body of \<open>gen_frames\<close> in src/backend.py (lines 168--260):
    the \<open>left_*\<close> variables read the RIGHT landmarks of the mirrored frame, and
    each shoulder (hip) angle is computed from the same three points as the
    elbow (knee) angle;
  \<^item> \<open>image_angles\<close>, the body of \<open>analyze_pose\<close> in src/cv.py (lines 43--97),
    which produced the reference table: hip--shoulder--elbow for the shoulder,
    shoulder--elbow--wrist for the elbow, shoulder--hip--knee for the hip,
    hip--knee--ankle for the knee, each side from its own landmarks.
  The rest of src/cv.py (\<open>analyze_pose\<close> and \<open>main\<close>) is in theory \<open>CvScript\<close>.
\<close>

subsection \<open>Definitions\<close>

datatype landmark =
    LEFT_SHOULDER | RIGHT_SHOULDER | LEFT_ELBOW | RIGHT_ELBOW | LEFT_WRIST | RIGHT_WRIST
  | LEFT_HIP | RIGHT_HIP | LEFT_KNEE | RIGHT_KNEE | LEFT_ANKLE | RIGHT_ANKLE

type_synonym skeleton = "landmark \<Rightarrow> point"

definition live_angles :: "skeleton \<Rightarrow> angle_set" where
  "live_angles landmarks =
     (let left_shoulder = landmarks RIGHT_SHOULDER;
          left_elbow = landmarks RIGHT_ELBOW;
          left_wrist = landmarks RIGHT_WRIST;
          right_shoulder = landmarks LEFT_SHOULDER;
          right_elbow = landmarks LEFT_ELBOW;
          right_wrist = landmarks LEFT_WRIST;
          left_hip = landmarks RIGHT_HIP;
          left_knee = landmarks RIGHT_KNEE;
          left_ankle = landmarks RIGHT_ANKLE;
          right_hip = landmarks LEFT_HIP;
          right_knee = landmarks LEFT_KNEE;
          right_ankle = landmarks LEFT_ANKLE;
          left_shoulder_angle = calculate_angle left_shoulder left_elbow left_wrist;
          left_elbow_angle = calculate_angle left_shoulder left_elbow left_wrist;
          left_hip_angle = calculate_angle left_hip left_knee left_ankle;
          left_knee_angle = calculate_angle left_hip left_knee left_ankle;
          right_shoulder_angle = calculate_angle right_shoulder right_elbow right_wrist;
          right_elbow_angle = calculate_angle right_shoulder right_elbow right_wrist;
          right_hip_angle = calculate_angle right_hip right_knee right_ankle;
          right_knee_angle = calculate_angle right_hip right_knee right_ankle
      in [''left_shoulder'' \<mapsto> left_shoulder_angle,
          ''left_elbow'' \<mapsto> left_elbow_angle,
          ''right_shoulder'' \<mapsto> right_shoulder_angle,
          ''right_elbow'' \<mapsto> right_elbow_angle,
          ''left_hip'' \<mapsto> left_hip_angle,
          ''left_knee'' \<mapsto> left_knee_angle,
          ''right_hip'' \<mapsto> right_hip_angle,
          ''right_knee'' \<mapsto> right_knee_angle])"

definition image_angles :: "skeleton \<Rightarrow> angle_set" where
  "image_angles landmarks =
     (let j = landmarks
      in [''left_shoulder'' \<mapsto> cv_calculate_angle (j LEFT_HIP) (j LEFT_SHOULDER) (j LEFT_ELBOW),
          ''left_elbow'' \<mapsto> cv_calculate_angle (j LEFT_SHOULDER) (j LEFT_ELBOW) (j LEFT_WRIST),
          ''right_shoulder'' \<mapsto> cv_calculate_angle (j RIGHT_HIP) (j RIGHT_SHOULDER) (j RIGHT_ELBOW),
          ''right_elbow'' \<mapsto> cv_calculate_angle (j RIGHT_SHOULDER) (j RIGHT_ELBOW) (j RIGHT_WRIST),
          ''left_hip'' \<mapsto> cv_calculate_angle (j LEFT_SHOULDER) (j LEFT_HIP) (j LEFT_KNEE),
          ''left_knee'' \<mapsto> cv_calculate_angle (j LEFT_HIP) (j LEFT_KNEE) (j LEFT_ANKLE),
          ''right_hip'' \<mapsto> cv_calculate_angle (j RIGHT_SHOULDER) (j RIGHT_HIP) (j RIGHT_KNEE),
          ''right_knee'' \<mapsto> cv_calculate_angle (j RIGHT_HIP) (j RIGHT_KNEE) (j RIGHT_ANKLE)])"

definition joint_names :: "string set" where
  "joint_names = {''left_shoulder'', ''left_elbow'', ''right_shoulder'', ''right_elbow'',
                  ''left_hip'', ''left_knee'', ''right_hip'', ''right_knee''}"

text \<open>A concrete skeleton: a left arm bent at the shoulder and straight at the elbow.\<close>

definition bent_arm :: skeleton where
  "bent_arm = (\<lambda>l. case l of
      LEFT_HIP \<Rightarrow> (0, 1) | LEFT_SHOULDER \<Rightarrow> (0, 0) | LEFT_ELBOW \<Rightarrow> (1, 0)
    | LEFT_WRIST \<Rightarrow> (2, 0) | _ \<Rightarrow> (0, 0))"

text \<open>
  A well-formed joint-angle set (the JointAngleSet of the specification): its
  keys are the eight joint names and every angle lies in [0, 180].
\<close>

definition wf_angle_set :: "angle_set \<Rightarrow> bool" where
  "wf_angle_set a \<longleftrightarrow>
     dom a = joint_names \<and> (\<forall>j \<in> joint_names. \<forall>x. a j = Some x \<longrightarrow> 0 \<le> x \<and> x \<le> 180)"

declare live_angles_def [eval_simps] image_angles_def [eval_simps]

subsection \<open>Properties\<close>

lemma dom_live_angles: "dom (live_angles lm) = joint_names"
  by (simp add: live_angles_def joint_names_def Let_def insert_commute)

lemma dom_image_angles: "dom (image_angles lm) = joint_names"
  by (simp add: image_angles_def joint_names_def Let_def insert_commute)

lemma POSE_TARGETS_joints: "POSE_TARGETS p = Some ts \<Longrightarrow> fst ` set ts = joint_names"
  by (auto simp: pose_table_defs joint_names_def split: if_splits)

text \<open>Every angle of the image path lies in [0, 180].\<close>

theorem image_angles_range:
  "image_angles lm j = Some a \<Longrightarrow> 0 \<le> a \<and> a \<le> 180"
  by (auto simp: image_angles_def cv_calculate_angle_eq Let_def split: if_splits)

lemma live_angles_range:
  "live_angles lm j = Some a \<Longrightarrow> 0 \<le> a \<and> a \<le> 180"
  by (auto simp: live_angles_def Let_def split: if_splits)

text \<open>C28: the live path always builds a well-formed joint-angle set.\<close>

theorem live_angles_wf: "wf_angle_set (live_angles lm)"
  using live_angles_range by (simp add: wf_angle_set_def dom_live_angles)

theorem live_angles_wf_witness: "wf_angle_set (live_angles bent_arm)"
  by (rule live_angles_wf)

text \<open>C25: on the live path the shoulder angle always equals the elbow angle and the hip angle the knee angle, on both sides: each pair is computed from the same three landmarks.\<close>

theorem live_shoulder_is_elbow:
  "live_angles lm ''left_shoulder'' = live_angles lm ''left_elbow'' \<and>
   live_angles lm ''right_shoulder'' = live_angles lm ''right_elbow'' \<and>
   live_angles lm ''left_hip'' = live_angles lm ''left_knee'' \<and>
   live_angles lm ''right_hip'' = live_angles lm ''right_knee''"
  by (simp add: live_angles_def Let_def)

text \<open>C27: the live path's left elbow and knee angles are the image path's right ones and vice versa (the live path reads the mirrored landmarks).\<close>

theorem live_angles_mirror_image:
  "live_angles lm ''left_elbow'' = image_angles lm ''right_elbow'' \<and>
   live_angles lm ''right_elbow'' = image_angles lm ''left_elbow'' \<and>
   live_angles lm ''left_knee'' = image_angles lm ''right_knee'' \<and>
   live_angles lm ''right_knee'' = image_angles lm ''left_knee''"
  by (simp add: live_angles_def image_angles_def cv_calculate_angle_eq Let_def)

text \<open>The image path, which produced the reference table, does distinguish the two: on a bent arm its shoulder angle is 90 and its elbow angle 180.\<close>

theorem image_shoulder_differs_from_elbow:
  "image_angles bent_arm ''left_shoulder'' = Some 90 \<and>
   image_angles bent_arm ''left_elbow'' = Some 180"
  by (simp add: image_angles_def cv_calculate_angle_eq calculate_angle_def arctan2_def bent_arm_def)

end
