(* ===== verification/Server.thy ===== *)
theory Server
  imports Skeleton
begin

text \<open>
  The Flask host of src/backend.py as a state machine.  Its three module
  globals \<open>score\<close>, \<open>scoring_effect\<close> and \<open>current_pose_val\<close> (lines 18--20)
  are the record \<open>session\<close>.  Request bodies are JSON values; Python's
  \<open>dict.get\<close>, \<open>isinstance(v, (int, float))\<close> (which \<open>bool\<close> passes), numeric
  equality (\<open>True == 1\<close>, \<open>1.0 == 1\<close>) and \<open>int()\<close> (truncation) are written
  out.  Exceptions are values: a handler whose body raises returns \<open>Inl\<close>.
  Each handler is one atomic step; one iteration of the \<open>gen_frames\<close> loop
  is the step \<open>process_frame\<close>.  \<open>server_step\<close> interleaves frames and
  requests in any order; \<open>reachable\<close> is the set of states a run reaches.
\<close>

subsection \<open>Python values\<close>

datatype json =
    JNull | JBool bool | JInt int | JFloat real | JStr string
  | JList "json list" | JObj "(string \<times> json) list"

datatype py_exc = BadRequest | AttributeError

datatype response = Response nat json

definition dict_get :: "(string \<times> json) list \<Rightarrow> string \<Rightarrow> json \<Rightarrow> json" where
  "dict_get kvs k d = (case map_of (rev kvs) k of None \<Rightarrow> d | Some v \<Rightarrow> v)"

definition get_json :: "json option \<Rightarrow> py_exc + (string \<times> json) list" where
  "get_json body =
     (case body of
        None \<Rightarrow> Inl BadRequest
      | Some (JObj kvs) \<Rightarrow> Inr kvs
      | Some _ \<Rightarrow> Inl AttributeError)"

fun py_number :: "json \<Rightarrow> real option" where
  "py_number (JInt i) = Some (real_of_int i)"
| "py_number (JFloat r) = Some r"
| "py_number (JBool b) = Some (if b then 1 else 0)"
| "py_number _ = None"

definition py_trunc :: "real \<Rightarrow> int" where
  "py_trunc r = (if 0 \<le> r then \<lfloor>r\<rfloor> else \<lceil>r\<rceil>)"

definition py_eq_int :: "json \<Rightarrow> int \<Rightarrow> bool" where
  "py_eq_int v n = (case py_number v of None \<Rightarrow> False | Some r \<Rightarrow> r = real_of_int n)"

subsection \<open>Session state and handlers\<close>

record session =
  score :: int
  scoring_effect :: json
  current_pose_val :: int

definition init_session :: session where
  "init_session = \<lparr>score = 0, scoring_effect = JInt 0, current_pose_val = 0\<rparr>"

definition exc_message :: "py_exc \<Rightarrow> string" where
  "exc_message e = (case e of BadRequest \<Rightarrow> ''400 Bad Request''
                            | AttributeError \<Rightarrow> ''object has no attribute get'')"

definition update_current_pose :: "session \<Rightarrow> json option \<Rightarrow> session \<times> response" where
  "update_current_pose s body =
     (case get_json body of
        Inl e \<Rightarrow> (s, Response 400 (JObj [(''status'', JStr ''error''), (''message'', JStr (exc_message e))]))
      | Inr data \<Rightarrow>
          (let new_pose_val = dict_get data ''poseValue'' (JInt 0)
           in case py_number new_pose_val of
                Some v \<Rightarrow>
                  (if 0 \<le> v \<and> v \<le> 3
                   then (let p = py_trunc v
                         in (s\<lparr>current_pose_val := p\<rparr>,
                             Response 200 (JObj [(''status'', JStr ''success''), (''current_pose'', JInt p)])))
                   else (s, Response 400 (JObj [(''status'', JStr ''error''), (''message'', JStr ''Invalid pose value'')])))
              | None \<Rightarrow>
                  (s, Response 400 (JObj [(''status'', JStr ''error''), (''message'', JStr ''Invalid pose value'')]))))"

definition get_scoring_effect :: "session \<Rightarrow> session \<times> response" where
  "get_scoring_effect s = (s, Response 200 (JObj [(''scoringEffect'', scoring_effect s)]))"

definition update_score :: "session \<Rightarrow> json option \<Rightarrow> py_exc + session \<times> response" where
  "update_score s body =
     (case get_json body of
        Inl e \<Rightarrow> Inl e
      | Inr data \<Rightarrow>
          (let eff = dict_get data ''scoringEffect'' (JInt 1);
               s1 = s\<lparr>scoring_effect := eff\<rparr>;
               s2 = (if py_eq_int eff 1 then s1\<lparr>score := score s1 - 50\<rparr>
                     else if py_eq_int eff 2 then s1\<lparr>score := score s1 + 10\<rparr>
                     else if py_eq_int eff 3 then s1\<lparr>score := score s1 + 30\<rparr>
                     else if py_eq_int eff 4 then s1\<lparr>score := score s1 + 50\<rparr>
                     else s1)
           in Inr (s2, Response 200 (JObj [(''score'', JInt (score s2)), (''scoringEffect'', scoring_effect s2)]))))"

definition process_frame :: "session \<Rightarrow> skeleton option \<Rightarrow> session" where
  "process_frame s pose_landmarks =
     (case pose_landmarks of
        None \<Rightarrow> s
      | Some landmarks \<Rightarrow>
          (let current_angles = live_angles landmarks;
               pose_score = calculate_pose_score current_angles (current_pose_val s)
           in s\<lparr>scoring_effect := JInt pose_score\<rparr>))"

fun gen_frames :: "('f \<Rightarrow> skeleton option) \<Rightarrow> session \<Rightarrow> 'f option list \<Rightarrow> session \<times> 'f list" where
  "gen_frames process s [] = (s, [])"
| "gen_frames process s (None # reads) = (s, [])"
| "gen_frames process s (Some frame # reads) =
     (let (s', out) = gen_frames process (process_frame s (process frame)) reads
      in (s', frame # out))"

subsection \<open>Interleaving frames and requests\<close>

datatype event =
    Frame "skeleton option"
  | SelectPose "json option"
  | ReportScore "json option"
  | PollEffect

fun server_step :: "session \<Rightarrow> event \<Rightarrow> session" where
  "server_step s (Frame d) = process_frame s d"
| "server_step s (SelectPose body) = fst (update_current_pose s body)"
| "server_step s (ReportScore body) = (case update_score s body of Inl _ \<Rightarrow> s | Inr (s', _) \<Rightarrow> s')"
| "server_step s PollEffect = fst (get_scoring_effect s)"

inductive reachable :: "session \<Rightarrow> bool" where
  init: "reachable init_session"
| step: "reachable s \<Longrightarrow> reachable (server_step s e)"


definition reward :: "int \<Rightarrow> int" where
  "reward g = (if g = 1 then -50 else if g = 2 then 10 else if g = 3 then 30 else if g = 4 then 50 else 0)"

definition score_report :: "int \<Rightarrow> json option" where
  "score_report g = Some (JObj [(''scoringEffect'', JInt g)])"

definition pose_request :: "json \<Rightarrow> json option" where
  "pose_request v = Some (JObj [(''poseValue'', v)])"

text \<open>
  What the specification's pose selection amounts to on each kind of JSON
  value: an integer id 0--3 selects that pose, a bool (a Python int) selects
  0 or 1, a number in [0, 3] selects its integer part, anything else is
  invalid.
\<close>

fun pose_choice :: "json \<Rightarrow> int option" where
  "pose_choice (JInt i) = (if 0 \<le> i \<and> i \<le> 3 then Some i else None)"
| "pose_choice (JBool b) = Some (if b then 1 else 0)"
| "pose_choice (JFloat r) = (if 0 \<le> r \<and> r \<le> 3 then Some \<lfloor>r\<rfloor> else None)"
| "pose_choice _ = None"

definition report_run :: "int \<Rightarrow> nat \<Rightarrow> session \<Rightarrow> session" where
  "report_run g k = (\<lambda>s. server_step s (ReportScore (score_report g))) ^^ k"

definition valid_pose :: "session \<Rightarrow> bool" where
  "valid_pose s \<longleftrightarrow> 0 \<le> current_pose_val s \<and> current_pose_val s \<le> 3"

lemma py_trunc_range: "0 \<le> v \<Longrightarrow> v \<le> 3 \<Longrightarrow> 0 \<le> py_trunc v \<and> py_trunc v \<le> 3"
  by (simp add: py_trunc_def floor_le_iff)

lemma update_current_pose_valid:
  "valid_pose s \<Longrightarrow> valid_pose (fst (update_current_pose s body))"
  by (auto simp: update_current_pose_def valid_pose_def Let_def py_trunc_range
      split: sum.splits option.splits)

lemma update_score_pose [simp]:
  "update_score s body = Inr (s', r) \<Longrightarrow> current_pose_val s' = current_pose_val s"
  by (auto simp: update_score_def Let_def split: sum.splits)

lemma server_step_pose_cases:
  "current_pose_val (server_step s e) = current_pose_val s \<or>
   (\<exists>body. e = SelectPose body \<and> server_step s e = fst (update_current_pose s body))"
  by (cases e)
     (auto simp: process_frame_def get_scoring_effect_def Let_def split: option.splits sum.splits)

lemma server_step_valid: "valid_pose s \<Longrightarrow> valid_pose (server_step s e)"
  using server_step_pose_cases [of s e] update_current_pose_valid
  by (auto simp: valid_pose_def)

lemma reachable_valid: "reachable s \<Longrightarrow> valid_pose s"
proof (induction rule: reachable.induct)
  case init
  then show ?case by (simp add: valid_pose_def init_session_def)
next
  case (step s e)
  from step.IH show ?case by (rule server_step_valid)
qed

text \<open>C17: in every reachable state the selected pose id is one of the table ids 0--3, whatever sequence of frames and requests led there.\<close>

theorem reachable_valid_pose: "reachable s \<Longrightarrow> 0 \<le> current_pose_val s \<and> current_pose_val s \<le> 3"
  using reachable_valid by (simp add: valid_pose_def)

theorem reachable_valid_pose_witness:
  "reachable init_session \<and> 0 \<le> current_pose_val init_session \<and> current_pose_val init_session \<le> 3"
  using reachable_valid_pose [OF reachable.init] reachable.init by simp

lemma update_score_score:
  "update_score s body = Inr (s', r) \<Longrightarrow> score s' - score s \<in> {-50, 10, 30, 50, 0}"
  by (auto simp: update_score_def Let_def split: sum.splits if_splits)

lemma server_step_score: "score (server_step s e) - score s \<in> {-50, 10, 30, 50, 0}"
proof (cases e)
  case (ReportScore body)
  then show ?thesis
    using update_score_score [of s body] by (auto split: sum.splits)
qed (simp_all add: process_frame_def get_scoring_effect_def update_current_pose_def Let_def
       split: option.splits sum.splits)

text \<open>C18: in every reachable state the cumulative score is a multiple of 10 (every reward and penalty is).\<close>

theorem reachable_score_mult10: "reachable s \<Longrightarrow> 10 dvd score s"
proof (induction rule: reachable.induct)
  case init
  then show ?case by (simp add: init_session_def)
next
  case (step s e)
  have "score (server_step s e) - score s \<in> {-50, 10, 30, 50, 0}" by (rule server_step_score)
  then have "10 dvd (score (server_step s e) - score s)" by auto
  from dvd_add [OF step.IH this] show ?case by simp
qed

theorem reachable_score_mult10_witness:
  "reachable init_session \<and> 10 dvd score init_session"
  using reachable_score_mult10 [OF reachable.init] reachable.init by simp

text \<open>A score report whose body is missing or not a JSON object raises in the handler, so no new state is produced.\<close>

theorem update_score_rejects:
  "update_score s None = Inl BadRequest \<and> update_score s (Some (JList xs)) = Inl AttributeError"
  by (simp add: update_score_def get_json_def)

text \<open>C24: the frame loop terminates on every finite camera stream: it processes and yields exactly the frames read before the first failed read, in order, and stops there.\<close>

theorem gen_frames_prefix:
  "gen_frames process s reads =
     (fold (\<lambda>f s. process_frame s (process f)) (map the (takeWhile (\<lambda>r. r \<noteq> None) reads)) s,
      map the (takeWhile (\<lambda>r. r \<noteq> None) reads))"
  by (induction process s reads rule: gen_frames.induct) (simp_all split: prod.splits)

lemma process_frame_None [simp]: "process_frame s None = s"
  by (simp add: process_frame_def)

lemma process_frame_fields:
  "score (process_frame s d) = score s \<and> current_pose_val (process_frame s d) = current_pose_val s"
  by (simp add: process_frame_def Let_def split: option.split)

lemma gen_frames_state_Some [simp]:
  "fst (gen_frames process s (Some frame # reads)) = fst (gen_frames process (process_frame s (process frame)) reads)"
  by (simp split: prod.split)

text \<open>
  C10: after a run of the frame loop the selected pose and the score are
  unchanged, and the exposed scoring effect is the grade, against the selected
  pose, of the last frame in which a pose was detected, or the previous effect
  when there was none.
\<close>

theorem gen_frames_last_grade:
  "score (fst (gen_frames process s reads)) = score s \<and>
   current_pose_val (fst (gen_frames process s reads)) = current_pose_val s \<and>
   scoring_effect (fst (gen_frames process s reads)) =
     (let ds = filter (\<lambda>d. d \<noteq> None) (map (process \<circ> the) (takeWhile (\<lambda>r. r \<noteq> None) reads))
      in if ds = [] then scoring_effect s
         else JInt (calculate_pose_score (live_angles (the (last ds))) (current_pose_val s)))"
proof (induction process s reads rule: gen_frames.induct)
  case (1 process s)
  then show ?case by simp
next
  case (2 process s reads)
  then show ?case by simp
next
  case (3 process s frame reads)
  let ?s1 = "process_frame s (process frame)"
  have f: "score ?s1 = score s" "current_pose_val ?s1 = current_pose_val s"
    using process_frame_fields by simp_all
  show ?case
  proof (cases "process frame")
    case None
    from 3 show ?thesis unfolding None process_frame_None by (simp add: None Let_def del: gen_frames.simps(3))
  next
    case (Some lm)
    then have e: "scoring_effect ?s1 = JInt (calculate_pose_score (live_angles lm) (current_pose_val s))"
      by (simp add: process_frame_def Let_def)
    from 3 f e show ?thesis by (simp add: Some Let_def del: gen_frames.simps(3))
  qed
qed

lemma update_score_report:
  "update_score s (score_report g) =
     Inr (s\<lparr>scoring_effect := JInt g, score := score s + reward g\<rparr>,
          Response 200 (JObj [(''score'', JInt (score s + reward g)), (''scoringEffect'', JInt g)]))"
  by (simp add: score_report_def update_score_def get_json_def dict_get_def py_eq_int_def reward_def Let_def)

text \<open>C20: the score accumulator is a reducer: two grade reports add the two rewards to the previous total, with no floor or ceiling.\<close>

theorem report_twice:
  "score (server_step (server_step s (ReportScore (score_report g1))) (ReportScore (score_report g2))) =
     score s + reward g1 + reward g2"
  by (simp add: update_score_report)

lemma update_current_pose_int:
  "0 \<le> p \<Longrightarrow> p \<le> 3 \<Longrightarrow>
   update_current_pose s (pose_request (JInt p)) =
     (s\<lparr>current_pose_val := p\<rparr>, Response 200 (JObj [(''status'', JStr ''success''), (''current_pose'', JInt p)]))"
  by (simp add: pose_request_def update_current_pose_def get_json_def dict_get_def py_trunc_def)

text \<open>C19: ordering: a frame processed after a pose selection is graded against the pose just selected.\<close>

theorem select_then_frame:
  assumes "0 \<le> p" and "p \<le> 3"
  shows "scoring_effect (server_step (server_step s (SelectPose (pose_request (JInt p)))) (Frame (Some lm))) =
           JInt (calculate_pose_score (live_angles lm) p)"
  using assms by (simp add: update_current_pose_int process_frame_def Let_def)

theorem select_then_frame_witness:
  "scoring_effect (server_step (server_step init_session (SelectPose (pose_request (JInt 2)))) (Frame (Some bent_arm))) =
     JInt (calculate_pose_score (live_angles bent_arm) 2)"
  using select_then_frame [of 2 init_session bent_arm] by simp

text \<open>
  C38: each handler writes only its own globals: a frame never changes the
  score or the selected pose, a pose selection never changes the score or the
  exposed effect, a successful score report never changes the selected pose,
  and polling the effect changes nothing.
\<close>

theorem handlers_write_own_globals:
  "score (process_frame s d) = score s \<and> current_pose_val (process_frame s d) = current_pose_val s \<and>
   score (fst (update_current_pose s body)) = score s \<and>
   scoring_effect (fst (update_current_pose s body)) = scoring_effect s \<and>
   (case update_score s body of Inl _ \<Rightarrow> True | Inr (s', _) \<Rightarrow> current_pose_val s' = current_pose_val s) \<and>
   fst (get_scoring_effect s) = s"
  by (auto simp: process_frame_def update_current_pose_def get_scoring_effect_def Let_def
      split: option.splits sum.splits)

text \<open>
  C39: a pose selection either succeeds with status 200, changing only the
  selected pose and to an id in 0--3, or fails with status 400 and changes
  nothing.
\<close>

theorem update_current_pose_outcome:
  assumes "update_current_pose s body = (s', Response code out)"
  shows "(code = 200 \<and> s' = s\<lparr>current_pose_val := current_pose_val s'\<rparr> \<and>
          0 \<le> current_pose_val s' \<and> current_pose_val s' \<le> 3) \<or>
         (code = 400 \<and> s' = s)"
  using assms
  by (auto simp: update_current_pose_def Let_def py_trunc_range split: sum.splits option.splits if_splits)

theorem update_current_pose_outcome_witness:
  "update_current_pose init_session (pose_request (JInt 2)) =
     (init_session\<lparr>current_pose_val := 2\<rparr>, Response 200 (JObj [(''status'', JStr ''success''), (''current_pose'', JInt 2)])) \<and>
   init_session\<lparr>current_pose_val := 2\<rparr> = init_session\<lparr>current_pose_val := current_pose_val (init_session\<lparr>current_pose_val := 2\<rparr>)\<rparr>"
proof -
  have h: "update_current_pose init_session (pose_request (JInt 2)) =
     (init_session\<lparr>current_pose_val := 2\<rparr>, Response 200 (JObj [(''status'', JStr ''success''), (''current_pose'', JInt 2)]))"
    by (simp add: update_current_pose_int)
  from update_current_pose_outcome [OF h] h show ?thesis by simp
qed

lemma py_number_pose_choice:
  "pose_choice v =
     (case py_number v of None \<Rightarrow> None | Some r \<Rightarrow> if 0 \<le> r \<and> r \<le> 3 then Some (py_trunc r) else None)"
  by (cases v) (simp_all add: py_trunc_def)

text \<open>
  C29: a pose selection with a JSON object body selects exactly the pose that
  \<open>pose_choice\<close> gives for its poseValue (0 when the field is missing), and
  answers 400 without a state change when there is none: bools and
  fractional numbers are accepted, the latter truncated.
\<close>

theorem update_current_pose_selects:
  "update_current_pose s (Some (JObj kvs)) =
     (case pose_choice (dict_get kvs ''poseValue'' (JInt 0)) of
        Some p \<Rightarrow> (s\<lparr>current_pose_val := p\<rparr>,
                   Response 200 (JObj [(''status'', JStr ''success''), (''current_pose'', JInt p)]))
      | None \<Rightarrow> (s, Response 400 (JObj [(''status'', JStr ''error''), (''message'', JStr ''Invalid pose value'')])))"
  by (simp add: update_current_pose_def get_json_def py_number_pose_choice Let_def split: option.split)

text \<open>
  C23: round trip of the scoring effect: whatever value a score report
  carries, the next poll of /get_scoring_effect returns it.
\<close>

theorem report_then_poll:
  "snd (get_scoring_effect (server_step s (ReportScore (Some (JObj [(''scoringEffect'', v)]))))) =
     Response 200 (JObj [(''scoringEffect'', v)])"
  by (simp add: update_score_def get_json_def dict_get_def get_scoring_effect_def Let_def)

lemma report_run_Suc:
  "report_run g (Suc k) s = server_step (report_run g k s) (ReportScore (score_report g))"
  by (simp only: report_run_def funpow.simps comp_apply)

lemma report_run_reachable: "reachable s \<Longrightarrow> reachable (report_run g k s)"
proof (induction k)
  case 0
  then show ?case by (simp add: report_run_def)
next
  case (Suc k)
  then have "reachable (report_run g k s)" by simp
  then show ?case unfolding report_run_Suc by (rule reachable.step)
qed

lemma report_run_score:
  "score (report_run g k s) = score s + int k * reward g \<and>
   current_pose_val (report_run g k s) = current_pose_val s"
  by (induction k) (simp_all add: report_run_def update_score_report algebra_simps)

text \<open>
  C30: every score the invariant allows can be reached: from any reachable
  state, grade reports alone lead to any total that differs from the current
  one by a multiple of 10, keeping the selected pose.
\<close>

theorem score_reachable:
  assumes "reachable s" and "10 dvd (n - score s)"
  shows "\<exists>s'. reachable s' \<and> score s' = n \<and> current_pose_val s' = current_pose_val s"
proof -
  obtain k where k: "n - score s = 10 * k" using assms(2) by (auto elim: dvdE)
  show ?thesis
  proof (cases "0 \<le> k")
    case True
    let ?s' = "report_run 2 (nat k) s"
    have "score ?s' = n" using report_run_score [of 2 "nat k" s] True k
      by (simp add: reward_def)
    moreover have "current_pose_val ?s' = current_pose_val s" using report_run_score by blast
    ultimately show ?thesis using report_run_reachable [OF assms(1)] by blast
  next
    case False
    let ?s1 = "report_run 1 (nat (- k)) s"
    let ?s' = "report_run 2 (4 * nat (- k)) ?s1"
    have "score ?s' = n"
      using report_run_score [of 2 "4 * nat (- k)" ?s1] report_run_score [of 1 "nat (- k)" s] False k
      by (simp add: reward_def)
    moreover have "current_pose_val ?s' = current_pose_val s" using report_run_score by simp
    moreover have "reachable ?s'" by (intro report_run_reachable assms(1))
    ultimately show ?thesis by blast
  qed
qed

theorem score_reachable_witness:
  "\<exists>s'. reachable s' \<and> score s' = -30 \<and> current_pose_val s' = current_pose_val init_session"
proof -
  have "10 dvd (-30 - score init_session)" by (simp add: init_session_def)
  with score_reachable [OF reachable.init] show ?thesis by blast
qed

end
