(* ===== verification/Concurrency.thy ===== *)
theory Concurrency
  imports Server
begin

text \<open>
  Interleaving of the request threads with the frame thread.  Flask's
  development server is threaded: the \<open>gen_frames\<close> generator of the
  \<open>/video_feed\<close> stream and a \<open>/update_score\<close> request run in different
  threads and share the globals.  Here \<open>update_score\<close> (src/backend.py
  lines 300--315) is split at its statements: storing the reported value in
  the global \<open>scoring_effect\<close> (lines 303--304), the if-chain that reads
  the global back and updates \<open>score\<close> (lines 306--313), and the reply that
  reads both globals (line 315).  \<open>conc_step\<close> interleaves these with
  whole frame iterations; \<open>mconc_step\<close> runs any number of requests as
  threads over one shared session, with frames and atomic pose selections.
  Run back to back the statements compute the atomic handler of theory
  \<open>Server\<close>; a frame between the first two makes the score use the frame's
  grade instead of the reported one, and two reports whose stores both run
  first both apply the later one.
\<close>

subsection \<open>Definitions\<close>

definition update_score_store :: "session \<Rightarrow> json option \<Rightarrow> py_exc + session" where
  "update_score_store s body =
     (case get_json body of
        Inl e \<Rightarrow> Inl e
      | Inr data \<Rightarrow> Inr (s\<lparr>scoring_effect := dict_get data ''scoringEffect'' (JInt 1)\<rparr>))"

definition update_score_apply :: "session \<Rightarrow> session" where
  "update_score_apply s =
     (if py_eq_int (scoring_effect s) 1 then s\<lparr>score := score s - 50\<rparr>
      else if py_eq_int (scoring_effect s) 2 then s\<lparr>score := score s + 10\<rparr>
      else if py_eq_int (scoring_effect s) 3 then s\<lparr>score := score s + 30\<rparr>
      else if py_eq_int (scoring_effect s) 4 then s\<lparr>score := score s + 50\<rparr>
      else s)"

definition update_score_reply :: "session \<Rightarrow> response" where
  "update_score_reply s = Response 200 (JObj [(''score'', JInt (score s)), (''scoringEffect'', scoring_effect s)])"

datatype request_pc = Store "json option" | Apply | Reply | Done "(py_exc + response)"

inductive conc_step :: "session \<times> request_pc \<Rightarrow> session \<times> request_pc \<Rightarrow> bool" where
  run_frame: "conc_step (s, pc) (process_frame s d, pc)"
| run_store: "update_score_store s body = Inr s' \<Longrightarrow> conc_step (s, Store body) (s', Apply)"
| run_raise: "update_score_store s body = Inl e \<Longrightarrow> conc_step (s, Store body) (s, Done (Inl e))"
| run_apply: "conc_step (s, Apply) (update_score_apply s, Reply)"
| run_reply: "conc_step (s, Reply) (s, Done (Inr (update_score_reply s)))"

text \<open>
  Any number of requests in flight: each \<open>/update_score\<close> request is a
  thread with its own program counter; a new request can arrive at any time,
  any thread can take its next statement, and frames and (atomic) pose
  selections interleave with them.
\<close>

inductive mconc_step :: "session \<times> request_pc list \<Rightarrow> session \<times> request_pc list \<Rightarrow> bool" where
  arrive: "mconc_step (s, ps) (s, ps @ [Store body])"
| thread: "i < length ps \<Longrightarrow> conc_step (s, ps ! i) (s', p') \<Longrightarrow> mconc_step (s, ps) (s', ps[i := p'])"
| frame: "mconc_step (s, ps) (process_frame s d, ps)"
| select: "mconc_step (s, ps) (fst (update_current_pose s body), ps)"


subsection \<open>Statement-level steps\<close>

lemma update_score_statements:
  "update_score s body =
     (case update_score_store s body of
        Inl e \<Rightarrow> Inl e
      | Inr s1 \<Rightarrow> Inr (update_score_apply s1, update_score_reply (update_score_apply s1)))"
  by (cases "get_json body")
     (simp_all add: update_score_def update_score_store_def update_score_apply_def
        update_score_reply_def Let_def)





text \<open>Run back to back, the statement-level steps of a request compute the atomic handler.\<close>

lemma serial_request_refines_update_score:
  assumes "update_score s body = Inr (s', r)"
  shows "conc_step\<^sup>*\<^sup>* (s, Store body) (s', Done (Inr r))"
proof -
  from assms obtain s1 where st: "update_score_store s body = Inr s1"
    and s': "s' = update_score_apply s1" and r: "r = update_score_reply s'"
    by (auto simp: update_score_statements split: sum.splits)
  have "conc_step (s, Store body) (s1, Apply)" using st by (rule conc_step.run_store)
  moreover have "conc_step (s1, Apply) (s', Reply)" unfolding s' by (rule conc_step.run_apply)
  moreover have "conc_step (s', Reply) (s', Done (Inr r))" unfolding r by (rule conc_step.run_reply)
  ultimately show ?thesis
    by (meson converse_rtranclp_into_rtranclp rtranclp.rtrancl_refl)
qed

lemma update_score_apply_int:
  "update_score_apply (s\<lparr>scoring_effect := JInt g\<rparr>) = s\<lparr>scoring_effect := JInt g, score := score s + reward g\<rparr>"
  by (simp add: update_score_apply_def py_eq_int_def reward_def)

lemma update_score_store_report:
  "update_score_store s (score_report g) = Inr (s\<lparr>scoring_effect := JInt g\<rparr>)"
  by (simp add: update_score_store_def score_report_def get_json_def dict_get_def)

text \<open>
  C36: for every state, every reported grade and every detected skeleton, a
  frame processed between the store and the if-chain of a score report makes
  the request apply the frame's grade, not the reported one, to the score and
  to its reply.
\<close>

theorem report_takes_frame_grade:
  "conc_step\<^sup>*\<^sup>* (s, Store (score_report g))
     (s\<lparr>scoring_effect := JInt (calculate_pose_score (live_angles lm) (current_pose_val s)),
        score := score s + reward (calculate_pose_score (live_angles lm) (current_pose_val s))\<rparr>,
      Done (Inr (Response 200 (JObj [(''score'', JInt (score s + reward (calculate_pose_score (live_angles lm) (current_pose_val s)))),
                                    (''scoringEffect'', JInt (calculate_pose_score (live_angles lm) (current_pose_val s)))]))))"
proof -
  let ?g = "calculate_pose_score (live_angles lm) (current_pose_val s)"
  let ?s1 = "s\<lparr>scoring_effect := JInt g\<rparr>"
  let ?s2 = "s\<lparr>scoring_effect := JInt ?g\<rparr>"
  let ?s3 = "s\<lparr>scoring_effect := JInt ?g, score := score s + reward ?g\<rparr>"
  have a: "conc_step (s, Store (score_report g)) (?s1, Apply)"
    by (rule conc_step.run_store) (rule update_score_store_report)
  have "conc_step (?s1, Apply) (process_frame ?s1 (Some lm), Apply)" by (rule conc_step.run_frame)
  moreover have "process_frame ?s1 (Some lm) = ?s2" by (simp add: process_frame_def)
  ultimately have b: "conc_step (?s1, Apply) (?s2, Apply)" by simp
  have "conc_step (?s2, Apply) (update_score_apply ?s2, Reply)" by (rule conc_step.run_apply)
  then have c: "conc_step (?s2, Apply) (?s3, Reply)" by (simp only: update_score_apply_int)
  have d: "conc_step (?s3, Reply) (?s3, Done (Inr (update_score_reply ?s3)))" by (rule conc_step.run_reply)
  have "update_score_reply ?s3 =
          Response 200 (JObj [(''score'', JInt (score s + reward ?g)), (''scoringEffect'', JInt ?g)])"
    by (simp add: update_score_reply_def)
  with a b c d show ?thesis
    by (metis (no_types, lifting) converse_rtranclp_into_rtranclp rtranclp.rtrancl_refl)
qed

text \<open>
  C32: two concurrent score reports lose an update even with no frame: with
  reports of 4 and 1 whose stores both run before either if-chain, both
  if-chains read 1 and the score drops by 100, where either serial order
  leaves it unchanged.
\<close>

theorem reports_lost_update:
  "\<exists>r1 r2. mconc_step\<^sup>*\<^sup>* (s, []) (s\<lparr>scoring_effect := JInt 1, score := score s - 100\<rparr>, [Done (Inr r1), Done (Inr r2)]) \<and>
   score (server_step (server_step s (ReportScore (score_report 4))) (ReportScore (score_report 1))) = score s \<and>
   score (server_step (server_step s (ReportScore (score_report 1))) (ReportScore (score_report 4))) = score s"
proof -
  let ?a = "s\<lparr>scoring_effect := JInt 4\<rparr>"
  let ?b = "s\<lparr>scoring_effect := JInt 1\<rparr>"
  let ?c = "s\<lparr>scoring_effect := JInt 1, score := score s - 50\<rparr>"
  let ?d = "s\<lparr>scoring_effect := JInt 1, score := score s - 100\<rparr>"
  let ?r = "Response 200 (JObj [(''score'', JInt (score s - 100)), (''scoringEffect'', JInt 1)])"
  have s1: "mconc_step (s, []) (s, [Store (score_report 4)])"
    using mconc_step.arrive [of s "[]"] by simp
  have s2: "mconc_step (s, [Store (score_report 4)]) (s, [Store (score_report 4), Store (score_report 1)])"
    using mconc_step.arrive [of s "[Store (score_report 4)]"] by simp
  have s3: "mconc_step (s, [Store (score_report 4), Store (score_report 1)]) (?a, [Apply, Store (score_report 1)])"
    using mconc_step.thread [of 0 "[Store (score_report 4), Store (score_report 1)]" s ?a Apply]
          conc_step.run_store [OF update_score_store_report [of s 4]] by simp
  have s4: "mconc_step (?a, [Apply, Store (score_report 1)]) (?b, [Apply, Apply])"
    using mconc_step.thread [of 1 "[Apply, Store (score_report 1)]" ?a ?b Apply]
          conc_step.run_store [OF update_score_store_report [of ?a 1]] by simp
  have s5: "mconc_step (?b, [Apply, Apply]) (?c, [Reply, Apply])"
    using mconc_step.thread [of 0 "[Apply, Apply]" ?b ?c Reply] conc_step.run_apply [of ?b]
    by (simp add: update_score_apply_int reward_def)
  have s6: "mconc_step (?c, [Reply, Apply]) (?d, [Reply, Reply])"
    using mconc_step.thread [of 1 "[Reply, Apply]" ?c ?d Reply] conc_step.run_apply [of ?c]
    by (simp add: update_score_apply_def py_eq_int_def)
  have s7: "mconc_step (?d, [Reply, Reply]) (?d, [Done (Inr ?r), Reply])"
    using mconc_step.thread [of 0 "[Reply, Reply]" ?d ?d "Done (Inr ?r)"] conc_step.run_reply [of ?d]
    by (simp add: update_score_reply_def)
  have s8: "mconc_step (?d, [Done (Inr ?r), Reply]) (?d, [Done (Inr ?r), Done (Inr ?r)])"
    using mconc_step.thread [of 1 "[Done (Inr ?r), Reply]" ?d ?d "Done (Inr ?r)"] conc_step.run_reply [of ?d]
    by (simp add: update_score_reply_def)
  have "mconc_step\<^sup>*\<^sup>* (s, []) (?d, [Done (Inr ?r), Done (Inr ?r)])"
    using s1 s2 s3 s4 s5 s6 s7 s8
    by (meson converse_rtranclp_into_rtranclp rtranclp.rtrancl_refl)
  moreover have "score (server_step (server_step s (ReportScore (score_report 4))) (ReportScore (score_report 1))) = score s"
    by (simp add: update_score_report reward_def)
  moreover have "score (server_step (server_step s (ReportScore (score_report 1))) (ReportScore (score_report 4))) = score s"
    by (simp add: update_score_report reward_def)
  ultimately show ?thesis by blast
qed

end
