(* ===== verification/CvScript.thy ===== *)
theory CvScript
  imports Skeleton "HOL-Library.Sublist"
begin

text \<open>
  The offline script src/cv.py around \<open>image_angles\<close>: \<open>analyze_pose\<close>
  (lines 20--100) and \<open>main\<close> (lines 102--124).  File-system access is a
  parameter: \<open>imread\<close> is \<open>cv2.imread\<close> (a path to an image or \<open>None\<close>) and
  \<open>entries\<close> the result of \<open>os.listdir\<close>; the detector \<open>process\<close> stands
  for the colour conversion and \<open>pose.process\<close>.  What the script prints is
  a list of output lines; an angle line keeps the label and the looked-up
  value (the \<open>.1f\<close> formatting and the degree sign are not modelled), so a
  missing key, which would raise \<open>KeyError\<close>, shows as \<open>None\<close>.
  \<open>analyze_pose\<close> also reports whether it closed the \<open>mp_pose.Pose\<close> object
  it opened.  The file filter lower-cases ASCII letters only (Python's
  \<open>str.lower\<close> also folds other cased characters).
\<close>

subsection \<open>Definitions\<close>

datatype out_line = Text string | AngleLine string "real option"

record analysis =
  result_angles :: "angle_set option"
  detector_closed :: bool
  printed :: "out_line list"

definition nl :: string where
  "nl = [CHR 0x0A]"

definition analyze_pose ::
  "('img \<Rightarrow> skeleton option) \<Rightarrow> (string \<Rightarrow> 'img option) \<Rightarrow> string \<Rightarrow> analysis" where
  "analyze_pose process imread image_path =
     (case imread image_path of
        None \<Rightarrow> \<lparr>result_angles = None, detector_closed = False,
                 printed = [Text (''Could not read image: '' @ image_path)]\<rparr>
      | Some image_rgb \<Rightarrow>
          (case process image_rgb of
             None \<Rightarrow> \<lparr>result_angles = None, detector_closed = False,
                      printed = [Text (''No pose detected in: '' @ image_path)]\<rparr>
           | Some landmarks \<Rightarrow> \<lparr>result_angles = Some (image_angles landmarks),
                                 detector_closed = True, printed = []\<rparr>))"

definition py_lower :: "string \<Rightarrow> string" where
  "py_lower s = map (\<lambda>c. let n = of_char c :: nat in if 65 \<le> n \<and> n \<le> 90 then char_of (n + 32) else c) s"

definition is_image_file :: "string \<Rightarrow> bool" where
  "is_image_file filename =
     (let l = py_lower filename in suffix ''.png'' l \<or> suffix ''.jpg'' l \<or> suffix ''.jpeg'' l)"

definition image_folder :: string where
  "image_folder = ''./public/poses''"

definition analyzing_line :: "string \<Rightarrow> out_line" where
  "analyzing_line filename = Text (nl @ ''Analyzing '' @ filename @ '':'')"

definition angle_report :: "angle_set \<Rightarrow> out_line list" where
  "angle_report angles =
     [Text (nl @ ''Arm angles:''),
      AngleLine ''Left Shoulder'' (angles ''left_shoulder''),
      AngleLine ''Left Elbow'' (angles ''left_elbow''),
      AngleLine ''Right Shoulder'' (angles ''right_shoulder''),
      AngleLine ''Right Elbow'' (angles ''right_elbow''),
      Text (nl @ ''Leg angles:''),
      AngleLine ''Left Hip'' (angles ''left_hip''),
      AngleLine ''Left Knee'' (angles ''left_knee''),
      AngleLine ''Right Hip'' (angles ''right_hip''),
      AngleLine ''Right Knee'' (angles ''right_knee'')]"

text \<open>
  The loop of \<open>main\<close>: the printed lines, and the number of \<open>Pose\<close> objects
  left open.  \<open>if angles:\<close> tests a dict that \<open>analyze_pose\<close> returns with its
  eight keys, so it is the test for \<open>None\<close>.
\<close>

fun cv_main :: "('img \<Rightarrow> skeleton option) \<Rightarrow> (string \<Rightarrow> 'img option) \<Rightarrow> string list \<Rightarrow>
                out_line list \<times> nat" where
  "cv_main process imread [] = ([], 0)"
| "cv_main process imread (filename # entries) =
     (let (out, leaked) = cv_main process imread entries
      in if is_image_file filename then
           (let image_path = image_folder @ ''/'' @ filename;
                r = analyze_pose process imread image_path;
                report = (case result_angles r of None \<Rightarrow> [] | Some angles \<Rightarrow> angle_report angles)
            in (analyzing_line filename # printed r @ report @ out,
                if detector_closed r then leaked else Suc leaked))
         else (out, leaked))"

subsection \<open>Properties\<close>

text \<open>
  C33: analyze_pose returns angles exactly when the image was read and a pose
  was detected, and then they are the image path's angles of the detected
  skeleton; the detector it opens is closed on that path only, so both early
  returns leave it open.
\<close>

theorem analyze_pose_returns:
  "(result_angles (analyze_pose process imread path) = Some angles \<longleftrightarrow>
      (\<exists>img lm. imread path = Some img \<and> process img = Some lm \<and> angles = image_angles lm)) \<and>
   (detector_closed (analyze_pose process imread path) \<longleftrightarrow>
      result_angles (analyze_pose process imread path) \<noteq> None)"
  by (auto simp: analyze_pose_def split: option.splits)

lemma analyze_pose_closed_iff:
  "detector_closed (analyze_pose process imread path) \<longleftrightarrow> result_angles (analyze_pose process imread path) \<noteq> None"
  by (auto simp: analyze_pose_def split: option.splits)

lemma analyze_pose_angles:
  "result_angles (analyze_pose process imread path) = Some a \<Longrightarrow> \<exists>lm. a = image_angles lm"
  by (auto simp: analyze_pose_def split: option.splits)

lemma analyze_pose_printed:
  "set (printed (analyze_pose process imread path)) \<subseteq> range Text"
  by (auto simp: analyze_pose_def split: option.splits)

lemma cv_main_Cons_lines:
  "set (fst (cv_main process imread (f # entries))) \<subseteq>
     set (fst (cv_main process imread entries)) \<union> range Text \<union>
     (case result_angles (analyze_pose process imread (image_folder @ ''/'' @ f)) of
        None \<Rightarrow> {} | Some a \<Rightarrow> set (angle_report a))"
  using analyze_pose_printed [of process imread "image_folder @ ''/'' @ f"]
  by (auto simp: Let_def analyzing_line_def split: prod.splits option.splits)

text \<open>
  C31: main leaves one \<open>Pose\<close> object open for every image file of the
  folder that could not be read or showed no pose, and closes the others.
\<close>

theorem cv_main_leaks:
  "snd (cv_main process imread entries) =
     length (filter (\<lambda>f. is_image_file f \<and>
                         result_angles (analyze_pose process imread (image_folder @ ''/'' @ f)) = None) entries)"
  by (induction entries) (auto simp: Let_def analyze_pose_closed_iff split: prod.splits)

text \<open>
  C21: main never looks up a missing key: every angle line it prints carries
  a value, and the value lies in [0, 180].
\<close>

theorem cv_main_angle_lines:
  "AngleLine label v \<in> set (fst (cv_main process imread entries)) \<Longrightarrow> \<exists>x. v = Some x \<and> 0 \<le> x \<and> x \<le> 180"
proof (induction entries)
  case Nil
  then show ?case by simp
next
  case (Cons f entries)
  show ?case
  proof (cases "AngleLine label v \<in> set (fst (cv_main process imread entries))")
    case True
    then show ?thesis by (rule Cons.IH)
  next
    case False
    have "AngleLine label v \<notin> range Text" by auto
    with False Cons.prems cv_main_Cons_lines [of process imread f entries] obtain a where
      a: "result_angles (analyze_pose process imread (image_folder @ ''/'' @ f)) = Some a"
      and l: "AngleLine label v \<in> set (angle_report a)"
      by (auto split: option.splits)
    from analyze_pose_angles [OF a] obtain lm where lm: "a = image_angles lm" by blast
    have keys: "\<And>k. k \<in> joint_names \<Longrightarrow> \<exists>x. a k = Some x \<and> 0 \<le> x \<and> x \<le> 180"
      using dom_image_angles [of lm] image_angles_range [of lm] unfolding lm by blast
    from l obtain k where "k \<in> joint_names" and "v = a k"
      by (auto simp: angle_report_def joint_names_def)
    with keys show ?thesis by blast
  qed
qed

theorem cv_main_angle_lines_witness:
  "AngleLine ''Left Shoulder'' (image_angles bent_arm ''left_shoulder'') \<in>
     set (fst (cv_main (\<lambda>_. Some bent_arm) (\<lambda>_. Some ()) [''Tree.PNG''])) \<and>
   (\<exists>x. image_angles bent_arm ''left_shoulder'' = Some x \<and> 0 \<le> x \<and> x \<le> 180)"
proof -
  have img: "is_image_file ''Tree.PNG''"
    by code_simp
  have h: "AngleLine ''Left Shoulder'' (image_angles bent_arm ''left_shoulder'') \<in>
     set (fst (cv_main (\<lambda>_. Some bent_arm) (\<lambda>_. Some ()) [''Tree.PNG'']))"
    using img by (simp add: analyze_pose_def angle_report_def Let_def)
  from h cv_main_angle_lines [OF h] show ?thesis by simp
qed

lemma not_analyzing_printed: "l \<in> set (printed (analyze_pose process imread path)) \<Longrightarrow> l \<notin> range analyzing_line"
  by (auto simp: analyze_pose_def analyzing_line_def nl_def split: option.splits)

lemma not_analyzing_report: "l \<in> set (angle_report a) \<Longrightarrow> l \<notin> range analyzing_line"
  by (auto simp: angle_report_def analyzing_line_def nl_def)

text \<open>
  C8: main analyses exactly the image files of the listing, each once and in
  listing order: its "Analyzing" headers are those of the files that pass the
  extension filter; no other line it prints is such a header.
\<close>

theorem cv_main_analyzed:
  "filter (\<lambda>l. l \<in> range analyzing_line) (fst (cv_main process imread entries)) =
     map analyzing_line (filter is_image_file entries)"
proof (induction entries)
  case Nil
  then show ?case by simp
next
  case (Cons f entries)
  let ?r = "analyze_pose process imread (image_folder @ ''/'' @ f)"
  have p: "filter (\<lambda>l. l \<in> range analyzing_line) (printed ?r) = []"
    by (simp add: filter_empty_conv) (blast dest: not_analyzing_printed)
  have q: "filter (\<lambda>l. l \<in> range analyzing_line)
             (case result_angles ?r of None \<Rightarrow> [] | Some a \<Rightarrow> angle_report a) = []"
    by (simp add: filter_empty_conv split: option.split) (blast dest: not_analyzing_report)
  from Cons.IH p q show ?case
    by (auto simp: Let_def split: prod.split)
qed

end
