(* ===== verification/LivePath.thy ===== *)
theory LivePath
  imports Skeleton
begin

text \<open>
  What the live path's repeated point triples (theory \<open>Skeleton\<close>, finding on
  src/backend.py lines 203--212) do to grading.  On the live path each
  shoulder angle equals the elbow angle of the same side, so when a target
  pose asks for a shoulder and an elbow angle more than 70 degrees apart, at
  most one of the two can lie within the Perfect threshold of 35 degrees.
  Tree pose and Warrior 2 ask for that on both sides, so no skeleton in front
  of the camera gets more than six of the eight joints within 35 degrees:
  their Perfect grade needs every hip and knee within the threshold, which
  for Tree pose pins the bent knee to an angle between its hip and knee
  targets.
\<close>

subsection \<open>Definitions\<close>

text \<open>
  A concrete stance: both arms and the left leg straight, the right knee
  bent at a right angle (the left leg of the mirrored frame).
\<close>

definition tree_stance :: skeleton where
  "tree_stance = (\<lambda>l. case l of
      LEFT_ELBOW \<Rightarrow> (1, 0) | RIGHT_ELBOW \<Rightarrow> (1, 0) | LEFT_KNEE \<Rightarrow> (1, 0) | RIGHT_KNEE \<Rightarrow> (1, 0)
    | LEFT_WRIST \<Rightarrow> (2, 0) | RIGHT_WRIST \<Rightarrow> (2, 0) | RIGHT_ANKLE \<Rightarrow> (2, 0) | LEFT_ANKLE \<Rightarrow> (1, 1)
    | _ \<Rightarrow> (0, 0))"

subsection \<open>The live differences against a target\<close>

lemma live_angles_eq:
  "live_angles lm =
     (let sh_l = calculate_angle (lm RIGHT_SHOULDER) (lm RIGHT_ELBOW) (lm RIGHT_WRIST);
          sh_r = calculate_angle (lm LEFT_SHOULDER) (lm LEFT_ELBOW) (lm LEFT_WRIST);
          hp_l = calculate_angle (lm RIGHT_HIP) (lm RIGHT_KNEE) (lm RIGHT_ANKLE);
          hp_r = calculate_angle (lm LEFT_HIP) (lm LEFT_KNEE) (lm LEFT_ANKLE)
      in [''left_shoulder'' \<mapsto> sh_l, ''left_elbow'' \<mapsto> sh_l, ''right_shoulder'' \<mapsto> sh_r,
          ''right_elbow'' \<mapsto> sh_r, ''left_hip'' \<mapsto> hp_l, ''left_knee'' \<mapsto> hp_l,
          ''right_hip'' \<mapsto> hp_r, ''right_knee'' \<mapsto> hp_r])"
  unfolding live_angles_def Let_def ..

lemma live_differences_eight:
  assumes "ts = [(''left_shoulder'', t1), (''left_elbow'', t2), (''right_shoulder'', t3), (''right_elbow'', t4),
                 (''left_hip'', t5), (''left_knee'', t6), (''right_hip'', t7), (''right_knee'', t8)]"
  shows "joint_differences (live_angles lm) ts =
     (let x = calculate_angle (lm RIGHT_SHOULDER) (lm RIGHT_ELBOW) (lm RIGHT_WRIST);
          y = calculate_angle (lm LEFT_SHOULDER) (lm LEFT_ELBOW) (lm LEFT_WRIST);
          z = calculate_angle (lm RIGHT_HIP) (lm RIGHT_KNEE) (lm RIGHT_ANKLE);
          w = calculate_angle (lm LEFT_HIP) (lm LEFT_KNEE) (lm LEFT_ANKLE)
      in [\<bar>x - t1\<bar>, \<bar>x - t2\<bar>, \<bar>y - t3\<bar>, \<bar>y - t4\<bar>, \<bar>z - t5\<bar>, \<bar>z - t6\<bar>, \<bar>w - t7\<bar>, \<bar>w - t8\<bar>])"
  unfolding assms live_angles_eq Let_def by simp

subsection \<open>Counting under a threshold\<close>

lemma pair_within_le_one:
  "2 * thr < \<bar>t1 - t2\<bar> \<Longrightarrow> count_within thr [\<bar>x - t1\<bar>, \<bar>x - (t2::real)\<bar>] \<le> 1"
  by (simp add: count_within_def) arith

lemma count_within_eight_split:
  assumes "2 * thr < \<bar>t1 - t2\<bar>" and "2 * thr < \<bar>t3 - t4\<bar>"
  shows "count_within thr [\<bar>x - t1\<bar>, \<bar>x - t2\<bar>, \<bar>y - t3\<bar>, \<bar>y - t4\<bar>, a, b, c, d] \<le>
           2 + count_within thr [a, b, c, d]"
proof -
  have split: "[\<bar>x - t1\<bar>, \<bar>x - t2\<bar>, \<bar>y - t3\<bar>, \<bar>y - t4\<bar>, a, b, c, d] =
      [\<bar>x - t1\<bar>, \<bar>x - t2\<bar>] @ [\<bar>y - t3\<bar>, \<bar>y - t4\<bar>] @ [a, b, c, d]" by simp
  have "count_within thr [\<bar>x - t1\<bar>, \<bar>x - t2\<bar>] \<le> 1" using assms(1) by (rule pair_within_le_one)
  moreover have "count_within thr [\<bar>y - t3\<bar>, \<bar>y - t4\<bar>] \<le> 1" using assms(2) by (rule pair_within_le_one)
  ultimately show ?thesis by (simp only: split count_within_append)
qed

lemma count_within_two_pairs:
  assumes "2 * thr < \<bar>t1 - t2\<bar>" and "2 * thr < \<bar>t3 - t4\<bar>"
  shows "count_within thr [\<bar>x - t1\<bar>, \<bar>x - t2\<bar>, \<bar>y - t3\<bar>, \<bar>y - t4\<bar>, a, b, c, d] \<le> 6"
  using count_within_eight_split [OF assms, of x y a b c d]
        count_within_le_length [of thr "[a, b, c, d]"] by simp

lemma count_within_four_all:
  "4 \<le> count_within thr [a, b, c, d] \<Longrightarrow> a \<le> thr \<and> b \<le> thr \<and> c \<le> thr \<and> d \<le> thr"
  using count_within_le_length [of thr "[b, c, d]"] count_within_le_length [of thr "[c, d]"]
        count_within_le_length [of thr "[d]"]
  by (simp split: if_splits)

lemma count_within_two_pairs_rest:
  assumes "2 * thr < \<bar>t1 - t2\<bar>" and "2 * thr < \<bar>t3 - t4\<bar>"
    and "6 \<le> count_within thr [\<bar>x - t1\<bar>, \<bar>x - t2\<bar>, \<bar>y - t3\<bar>, \<bar>y - t4\<bar>, a, b, c, d]"
  shows "a \<le> thr \<and> b \<le> thr \<and> c \<le> thr \<and> d \<le> thr"
  using count_within_eight_split [OF assms(1,2), of x y a b c d] assms(3)
  by (intro count_within_four_all) simp

subsection \<open>Tree pose and Warrior 2 on the live path\<close>

text \<open>
  C22: no live skeleton has more than six of its eight joint differences
  within the Perfect threshold of 35 degrees against Tree pose or Warrior 2.
\<close>

theorem live_perfect_count_bound:
  "count_within 35 (joint_differences (live_angles lm) tree_pose) \<le> 6 \<and>
   count_within 35 (joint_differences (live_angles lm) warrior_2) \<le> 6"
proof
  show "count_within 35 (joint_differences (live_angles lm) tree_pose) \<le> 6"
    unfolding live_differences_eight [OF tree_pose_def] Let_def
    by (rule count_within_two_pairs) simp_all
  show "count_within 35 (joint_differences (live_angles lm) warrior_2) \<le> 6"
    unfolding live_differences_eight [OF warrior_2_def] Let_def
    by (rule count_within_two_pairs) simp_all
qed


subsection \<open>Tree pose: what Perfect asks of the legs\<close>

lemma perfect_count:
  assumes "POSE_TARGETS p = Some ts" and "calculate_pose_score cur p = 4"
  shows "3 * length (joint_differences cur ts) \<le> 4 * count_within 35 (joint_differences cur ts)"
  using assms(2)
  by (simp add: calculate_pose_score_coverage [OF assms(1)] coverage_grade_def comparison_population_def
      size_filter_mset_count_within split: if_splits)

text \<open>
  C7: on the live path a Perfect grade for Tree pose fixes the legs: the
  angle at the RIGHT_KNEE landmark (the live left_hip and left_knee) is at
  least 132.7 degrees, and the angle at the LEFT_KNEE landmark (the live
  right_hip and right_knee) lies between 79.2 and 92.3 degrees, neither of the
  targets 114.2 and 57.3 the table gives that hip and knee: both differences
  come from one angle and both must be within 35.
\<close>

theorem live_tree_perfect_legs:
  assumes "calculate_pose_score (live_angles lm) 1 = 4"
  shows "132.7 \<le> calculate_angle (lm RIGHT_HIP) (lm RIGHT_KNEE) (lm RIGHT_ANKLE) \<and>
         79.2 \<le> calculate_angle (lm LEFT_HIP) (lm LEFT_KNEE) (lm LEFT_ANKLE) \<and>
         calculate_angle (lm LEFT_HIP) (lm LEFT_KNEE) (lm LEFT_ANKLE) \<le> 92.3"
proof -
  have ts: "POSE_TARGETS 1 = Some tree_pose" by (simp add: pose_table_defs)
  have c: "3 * length (joint_differences (live_angles lm) tree_pose) \<le>
           4 * count_within 35 (joint_differences (live_angles lm) tree_pose)"
    using perfect_count [OF ts assms] .
  note d = live_differences_eight [OF tree_pose_def, of lm]
  have "length (joint_differences (live_angles lm) tree_pose) = 8"
    unfolding d Let_def by (simp only: list.size)
  with c have "6 \<le> count_within 35 (joint_differences (live_angles lm) tree_pose)" by simp
  then have "\<bar>calculate_angle (lm RIGHT_HIP) (lm RIGHT_KNEE) (lm RIGHT_ANKLE) - 167.1\<bar> \<le> 35 \<and>
             \<bar>calculate_angle (lm RIGHT_HIP) (lm RIGHT_KNEE) (lm RIGHT_ANKLE) - 167.7\<bar> \<le> 35 \<and>
             \<bar>calculate_angle (lm LEFT_HIP) (lm LEFT_KNEE) (lm LEFT_ANKLE) - 114.2\<bar> \<le> 35 \<and>
             \<bar>calculate_angle (lm LEFT_HIP) (lm LEFT_KNEE) (lm LEFT_ANKLE) - 57.3\<bar> \<le> 35"
    unfolding d Let_def by (rule count_within_two_pairs_rest [rotated 2]) simp_all
  then show ?thesis by (simp add: abs_le_iff)
qed

lemma tree_stance_angles:
  "calculate_angle (tree_stance RIGHT_SHOULDER) (tree_stance RIGHT_ELBOW) (tree_stance RIGHT_WRIST) = 180 \<and>
   calculate_angle (tree_stance LEFT_SHOULDER) (tree_stance LEFT_ELBOW) (tree_stance LEFT_WRIST) = 180 \<and>
   calculate_angle (tree_stance RIGHT_HIP) (tree_stance RIGHT_KNEE) (tree_stance RIGHT_ANKLE) = 180 \<and>
   calculate_angle (tree_stance LEFT_HIP) (tree_stance LEFT_KNEE) (tree_stance LEFT_ANKLE) = 90"
  by (simp add: tree_stance_def calculate_angle_def arctan2_def)

theorem live_tree_perfect_legs_witness:
  "calculate_pose_score (live_angles tree_stance) 1 = 4 \<and>
   132.7 \<le> calculate_angle (tree_stance RIGHT_HIP) (tree_stance RIGHT_KNEE) (tree_stance RIGHT_ANKLE) \<and>
   79.2 \<le> calculate_angle (tree_stance LEFT_HIP) (tree_stance LEFT_KNEE) (tree_stance LEFT_ANKLE) \<and>
   calculate_angle (tree_stance LEFT_HIP) (tree_stance LEFT_KNEE) (tree_stance LEFT_ANKLE) \<le> 92.3"
proof -
  have g: "calculate_pose_score (live_angles tree_stance) 1 = 4"
    by (simp only: live_angles_eq Let_def tree_stance_angles)
       (simp add: calculate_pose_score_def pose_table_defs)
  from g live_tree_perfect_legs [OF g] show ?thesis by simp
qed

end
