(* ===== verification/Spec2Isabelle.thy ===== *)
theory Spec2Isabelle
  imports Concurrency CvScript LivePath
begin

text \<open>
  \<^bold>\<open>A verification development of physio-game.\<close>
  The program (src/backend.py, src/cv.py) is a Flask server that reads webcam
  frames, runs MediaPipe pose detection, turns the detected skeleton into eight
  joint angles, grades them 1--4 against a table of four reference yoga poses
  and keeps a session score that the web page reports grades to.  The pose
  detector, OpenCV capture and encoding, and the HTTP transport are external:
  the detector is a parameter of the model, frames are an abstract type, and
  a request is its parsed JSON body.  Python floats are \<open>real\<close> (no rounding,
  no NaN, no signed zero), Python ints \<open>int\<close>.

  \<^bold>\<open>Theories and what they model.\<close>
  \<^item> \<open>Prelude\<close>: the types \<open>point\<close> and \<open>angle_set\<close> (a joint-name dict),
    the \<open>eval_simps\<close> collection, and \<open>count_within\<close> (the generator sums
    \<open>sum(1 for diff in differences if diff <= T)\<close>) with the counting lemmas
    the scorer proofs share.
  \<^item> \<open>Angle\<close>: \<open>calculate_angle\<close> (backend.py lines 22--42) and its copy
    \<open>cv_calculate_angle\<close> (cv.py lines 6--18) over \<open>arctan2\<close>, numpy's
    two-argument arctangent written by quadrants with HOL's \<open>arctan\<close> (signed
    zeros are not modelled).  Lemmas: the result is in [0, 180] (C11), is
    symmetric in the end points (C13), invariant under translation (C14),
    scaling (C15) and rotation (C37) about the vertex and under the horizontal
    flip \<open>mirror_x\<close> that the live path applies to every frame (C26); with a
    degenerate segment it is 0 only on one ray, not always as the
    specification says (C34); and it refines the geometric specification
    \<open>unsigned_angle\<close>, the arccos of the normalised dot product (C12).
  \<^item> \<open>Scorer\<close>: \<open>POSE_TARGETS\<close> (lines 44--85, one definition per pose),
    the difference-collecting loop \<open>collect_differences\<close> (lines 106--111) and
    \<open>calculate_pose_score\<close> (lines 87--134).  The abstract specification
    \<open>pose_score_spec\<close> is the coverage rule on the multiset of differences with
    integer arithmetic; the code refines it (C1).  Further: grade range (C2),
    fail-closed on an unknown pose (C3) and on an empty comparison (C4),
    identical angles give Perfect (C5), monotonicity in the differences (C6),
    and only target joints matter (C9).
  \<^item> \<open>Skeleton\<close>: the twelve landmarks read, \<open>live_angles\<close> (the body of
    \<open>gen_frames\<close>, lines 168--260) and \<open>image_angles\<close> (the angle table of
    cv.py's \<open>analyze_pose\<close>, lines 79--97), and \<open>wf_angle_set\<close>, the type of a
    joint-angle dict: the eight joint keys, every value in [0, 180].  Lemmas:
    the live path always builds a well-formed dict (C28); it computes each
    shoulder angle from the elbow's points and each hip angle from the knee's
    (C25), where the image path distinguishes them; the live path's elbows
    and knees are the image path's of the other side (C27).
  \<^item> \<open>LivePath\<close>: what the repeated point triples do to grading: against
    Tree pose and Warrior 2 no live skeleton has more than six of eight
    joints within the Perfect threshold (C22), and a Perfect Tree pose pins
    both knee angles, one of them between its hip and knee targets (C7).
  \<^item> \<open>CvScript\<close>: the rest of src/cv.py.  \<open>analyze_pose\<close> (lines 20--100)
    with \<open>cv2.imread\<close> and the detector as parameters, returning the record
    \<open>analysis\<close> (the result, whether \<open>pose.close()\<close> ran, the lines
    printed); \<open>main\<close> (lines 102--124) as \<open>cv_main\<close> over the directory
    listing, with the extension filter \<open>is_image_file\<close> (\<open>str.lower\<close> on
    ASCII as \<open>py_lower\<close>, \<open>str.endswith\<close> as \<open>suffix\<close>), the header
    \<open>analyzing_line\<close> and the printed report \<open>angle_report\<close>.  Lemmas:
    \<open>analyze_pose\<close> returns angles exactly on a read image with a detected
    pose, and only then closes the detector (C33); \<open>main\<close> analyses exactly
    the image files, in listing order (C8), leaks one detector per unreadable
    or poseless image (C31), and every angle line it prints has a value in
    [0, 180], so no \<open>KeyError\<close> (C21).
  \<^item> \<open>Server\<close>: the module globals as the record \<open>session\<close>, the handlers
    \<open>update_current_pose\<close>, \<open>get_scoring_effect\<close>, \<open>update_score\<close>
    (lines 281--315) with Python's \<open>dict.get\<close>, numeric tests and \<open>int()\<close>
    written out and exceptions as \<open>Inl\<close>, one loop iteration of \<open>gen_frames\<close> as
    \<open>process_frame\<close> and the loop itself over a finite stream of camera reads
    (lines 136--271).  \<open>server_step\<close> takes one event (a frame or a request);
    \<open>reachable\<close> is the inductive set of states of any interleaving.  Lemmas:
    the pose id stays in 0--3 (C17) and the score a multiple of 10 (C18) in
    every reachable state; ordering of selection and grading (C19); the score
    reducer (C20); the round trip from a score report to the next poll
    (C23); the frame loop's output (C24) and the state it leaves (C10);
    pose selection refines the per-type choice \<open>pose_choice\<close>, which accepts
    bools and fractional ids (C29); reports alone reach every score the
    invariant allows (C30, with \<open>report_run\<close>, \<open>k\<close> reports of one grade);
    each handler writes only its own globals (C38) and a pose selection
    either succeeds with a valid id or changes nothing (C39).
  \<^item> \<open>Concurrency\<close>: \<open>update_score\<close> split at its statements (store
    the reported value, the if-chain that reads the global back, the reply) as
    \<open>update_score_store\<close>, \<open>update_score_apply\<close>, \<open>update_score_reply\<close>
    (run back to back they compute the atomic handler).  \<open>conc_step\<close>
    interleaves one request with frame iterations; \<open>mconc_step\<close> any number
    of requests, each with its own program counter, with frames and pose
    selections (Flask's development server, started at line 318, is threaded).
    Lemmas: a frame between store and if-chain makes a report apply the
    frame's grade, for every state, report and skeleton (C36), so a reported
    Perfect (+50) can become a Poor (-50) (C35); two concurrent reports of 4
    and 1 lose 100 points (C32).  The specification's mutual-exclusion
    requirement rules out both.
  \<^item> This theory: the property that spans the components, that every frame
    of a reachable state is graded against a pose of the table over all eight
    joints by the specified coverage rule (C16).

  \<^bold>\<open>Bounds and fuel.\<close>  No loop of the program needs fuel: the difference loop
  the frame loop and the loop of cv.py's \<open>main\<close> over the directory listing
  are structural recursions over finite lists.  The camera
  loop of the source runs until a read fails; the model takes the reads as a
  finite list, so its runs are the finite prefixes of the real one.

  \<^bold>\<open>Plan.\<close>  Modelled so far, in order of importance: the scorer, the angle
  calculator, the server state machine, the two angle-extraction paths with
  the grading consequences of the live path's repeated triples, the offline
  script cv.py, and the statement-level races of \<open>update_score\<close> with frames
  and with other requests.  Next: the request invariants of \<open>Server\<close> lifted
  to \<open>mconc_step\<close>; the if-chain of \<open>update_score\<close> split per test (each
  \<open>elif\<close> re-reads the global); and the response bodies of every handler
  branch.

  \<^bold>\<open>Not modelled.\<close>  MediaPipe detection and drawing, OpenCV capture, flipping and
  JPEG encoding (their results are parameters or the frame itself), Flask
  routing, CORS and JSON parsing (a request is its parsed body, or \<open>None\<close>
  when \<open>get_json\<close> fails), the file system of cv.py (\<open>os.listdir\<close> and
  \<open>cv2.imread\<close> are parameters; the path join is concatenation with
  \<open>/\<close>), the number formatting of its printout, floating
  point rounding and NaN.  In \<open>Server\<close> the handlers are atomic steps; only
  \<open>update_score\<close> is refined into statements (theory \<open>Concurrency\<close>), and
  the statement, not the bytecode, is the unit of interleaving; the whole
  if-chain is one step.  \<open>gen_frames\<close> yields the frame it read, not the
  annotated JPEG; exception messages (\<open>str(e)\<close>) are placeholders that no
  property reads.
\<close>

text \<open>
  C16: on the live path every frame of a reachable state is graded against an
  existing pose of the table, over a comparison population of all eight joints,
  by the specified coverage rule: the unknown-pose and empty-comparison branches
  are never taken there.
\<close>

theorem live_frame_grades_known_pose:
  assumes "reachable s"
  shows "\<exists>ts. POSE_TARGETS (current_pose_val s) = Some ts \<and>
              size (comparison_population (live_angles lm) ts) = 8 \<and>
              process_frame s (Some lm) =
                s\<lparr>scoring_effect := JInt (coverage_grade (comparison_population (live_angles lm) ts))\<rparr>"
proof -
  from assms have "valid_pose s" by (rule reachable_valid)
  then have "POSE_TARGETS (current_pose_val s) \<noteq> None"
    by (simp add: valid_pose_def POSE_TARGETS_None_iff)
  then obtain ts where ts: "POSE_TARGETS (current_pose_val s) = Some ts" by blast
  then have "fst ` set ts \<subseteq> dom (live_angles lm)"
    by (simp add: POSE_TARGETS_joints dom_live_angles)
  then have "size (comparison_population (live_angles lm) ts) = 8"
    using POSE_TARGETS_distinct [OF ts]
    by (simp add: comparison_population_def length_joint_differences)
  moreover have "process_frame s (Some lm) =
      s\<lparr>scoring_effect := JInt (coverage_grade (comparison_population (live_angles lm) ts))\<rparr>"
    by (simp add: process_frame_def calculate_pose_score_coverage [OF ts])
  ultimately show ?thesis using ts by blast
qed

theorem live_frame_grades_known_pose_witness:
  "\<exists>ts. POSE_TARGETS (current_pose_val init_session) = Some ts \<and>
        size (comparison_population (live_angles bent_arm) ts) = 8 \<and>
        process_frame init_session (Some bent_arm) =
          init_session\<lparr>scoring_effect := JInt (coverage_grade (comparison_population (live_angles bent_arm) ts))\<rparr>"
  using live_frame_grades_known_pose [OF reachable.init] .

end
